theory Spec2Isabelle
  imports Complex_Main "HOL-Library.Word"
begin

section \<open>Single-precision floating point\<close>

text \<open>
  The C++ type \<open>float\<close> of tracking.cpp is IEEE 754 binary32 with the default rounding
  (to nearest, ties to even). A value is modelled by its bit-level content: a finite
  number \<open>Finite s m e\<close> is \<open>(-1)^s * m * 2^e\<close> with a 24-bit significand
  \<open>m < 2^24\<close> and \<open>-149 \<le> e \<le> 104\<close>, where \<open>m < 2^23\<close> only for \<open>e = -149\<close>
  (zero and the subnormal numbers), so that every number has one representation; the
  two zeros are \<open>Finite False 0 (-149)\<close> and \<open>Finite True 0 (-149)\<close>. All NaNs are one
  value. Every operation computes the exact dyadic result on integers and rounds once.
\<close>

datatype f32 = Finite bool nat int | Infinity bool | NaN

fun bit_length :: "nat \<Rightarrow> nat" where
  "bit_length n = (if n = 0 then 0 else Suc (bit_length (n div 2)))"

declare bit_length.simps [simp del]

definition round_half_even :: "nat \<Rightarrow> nat \<Rightarrow> nat" where
  "round_half_even m d =
     (let q = m div d; r = m mod d
      in if 2 * r < d then q
         else if d < 2 * r then q + 1
         else if even q then q else q + 1)"

text \<open>\<open>round_f32 s m e\<close> is the binary32 number nearest to \<open>(-1)^s * m * 2^e\<close>.\<close>

definition round_f32 :: "bool \<Rightarrow> nat \<Rightarrow> int \<Rightarrow> f32" where
  "round_f32 s m e =
     (let E = max (e + int (bit_length m) - 24) (- 149);
          q = (if E \<le> e then m * 2 ^ nat (e - E)
               else round_half_even m (2 ^ nat (E - e)))
      in if q = 0 then Finite s 0 (- 149)
         else if q = 2 ^ 24 then (if 104 \<le> E then Infinity s else Finite s (2 ^ 23) (E + 1))
         else if 104 < E then Infinity s
         else Finite s q E)"

definition signed_value :: "bool \<Rightarrow> nat \<Rightarrow> int" where
  "signed_value s m = (if s then - int m else int m)"

text \<open>Conversion of an integer to \<open>float\<close> (implicit in C++ wherever an integer meets a float).\<close>

definition f32_of_int :: "int \<Rightarrow> f32" where
  "f32_of_int i = round_f32 (i < 0) (nat \<bar>i\<bar>) 0"

fun f32_mul :: "f32 \<Rightarrow> f32 \<Rightarrow> f32" where
  "f32_mul (Finite s1 m1 e1) (Finite s2 m2 e2) = round_f32 (s1 \<noteq> s2) (m1 * m2) (e1 + e2)"
| "f32_mul (Finite s1 m1 e1) (Infinity s2) = (if m1 = 0 then NaN else Infinity (s1 \<noteq> s2))"
| "f32_mul (Infinity s1) (Finite s2 m2 e2) = (if m2 = 0 then NaN else Infinity (s1 \<noteq> s2))"
| "f32_mul (Infinity s1) (Infinity s2) = Infinity (s1 \<noteq> s2)"
| "f32_mul NaN y = NaN"
| "f32_mul x NaN = NaN"

fun f32_add :: "f32 \<Rightarrow> f32 \<Rightarrow> f32" where
  "f32_add (Finite s1 m1 e1) (Finite s2 m2 e2) =
     (let e = min e1 e2;
          v = signed_value s1 m1 * 2 ^ nat (e1 - e) + signed_value s2 m2 * 2 ^ nat (e2 - e)
      in if v = 0 then Finite (s1 \<and> s2) 0 (- 149)
         else round_f32 (v < 0) (nat \<bar>v\<bar>) e)"
| "f32_add (Finite s1 m1 e1) (Infinity s2) = Infinity s2"
| "f32_add (Infinity s1) (Finite s2 m2 e2) = Infinity s1"
| "f32_add (Infinity s1) (Infinity s2) = (if s1 = s2 then Infinity s1 else NaN)"
| "f32_add NaN y = NaN"
| "f32_add x NaN = NaN"

fun f32_neg :: "f32 \<Rightarrow> f32" where
  "f32_neg (Finite s m e) = Finite (\<not> s) m e"
| "f32_neg (Infinity s) = Infinity (\<not> s)"
| "f32_neg NaN = NaN"

text \<open>The comparison \<open><\<close>; it is false as soon as one side is NaN.\<close>

fun f32_lt :: "f32 \<Rightarrow> f32 \<Rightarrow> bool" where
  "f32_lt (Finite s1 m1 e1) (Finite s2 m2 e2) =
     (let e = min e1 e2
      in signed_value s1 m1 * 2 ^ nat (e1 - e) < signed_value s2 m2 * 2 ^ nat (e2 - e))"
| "f32_lt (Finite s1 m1 e1) (Infinity s2) = (\<not> s2)"
| "f32_lt (Infinity s1) (Finite s2 m2 e2) = s1"
| "f32_lt (Infinity s1) (Infinity s2) = (s1 \<and> \<not> s2)"
| "f32_lt NaN y = False"
| "f32_lt x NaN = False"

definition f32_gt :: "f32 \<Rightarrow> f32 \<Rightarrow> bool" where
  "f32_gt x y = f32_lt y x"

text \<open>The comparison \<open>>=\<close>; false on NaN, otherwise the complement of \<open><\<close>.\<close>

definition f32_ge :: "f32 \<Rightarrow> f32 \<Rightarrow> bool" where
  "f32_ge x y = (x \<noteq> NaN \<and> y \<noteq> NaN \<and> \<not> f32_lt x y)"

definition isnan :: "f32 \<Rightarrow> bool" where
  "isnan x = (x = NaN)"

text \<open>
  Conversion of a \<open>float\<close> to \<open>int32_t\<close> (implicit in C++ where a float is assigned to an
  integer field): the fraction is discarded (truncation towards zero). The behaviour is
  undefined in C++ when the truncated value is not an \<open>int32_t\<close>: \<open>None\<close>.
\<close>

fun int32_of_f32 :: "f32 \<Rightarrow> int option" where
  "int32_of_f32 (Finite s m e) =
     (let v = (if 0 \<le> e then int m * 2 ^ nat e else int m div 2 ^ nat (- e));
          i = (if s then - v else v)
      in if - (2 ^ 31) \<le> i \<and> i < 2 ^ 31 then Some i else None)"
| "int32_of_f32 (Infinity s) = None"
| "int32_of_f32 NaN = None"

text \<open>The real number a finite \<open>float\<close> stands for.\<close>

fun valof :: "f32 \<Rightarrow> real" where
  "valof (Finite s m e) = real_of_int (signed_value s m) * 2 powi e"
| "valof (Infinity s) = 0"
| "valof NaN = 0"

text \<open>The literals of tracking.cpp: the binary32 numbers nearest to the decimals.\<close>

definition c_0_95f :: f32 where "c_0_95f = Finite False 15938355 (- 24)"
definition c_0_05f :: f32 where "c_0_05f = Finite False 13421773 (- 28)"
definition c_1e_6f :: f32 where "c_1e_6f = Finite False 8796093 (- 43)"
definition c_0_01f :: f32 where "c_0_01f = Finite False 10737418 (- 30)"
definition f32_zero :: f32 where "f32_zero = Finite False 0 (- 149)"


section \<open>Data model\<close>

text \<open>
  Modelled from the spec: the declarations of the data (Tracker.h, AP_Common.h,
  Parameters.h, the MAVLink message structs) are not under src/. tracking.cpp fixes the
  field names and how they are used; the types below are the ones that use needs: the
  coordinates of a \<open>Location\<close> are integers (latitude and longitude in 1e-7 degrees,
  altitude in centimetres), the clocks are unsigned 32-bit counters, the navigation
  outputs and the parameters \<open>startup_delay\<close> and \<open>pitch_trim\<close> are \<open>float\<close>.
\<close>

record Location =
  alt :: int
  lat :: int
  lng :: int

record VehicleState =
  location_valid :: bool
  location :: Location
  location_estimate :: Location
  last_update_us :: "32 word"
  last_update_ms :: "32 word"
  heading :: f32
  ground_speed :: f32

record NavStatus =
  bearing :: f32
  distance :: f32
  pitch :: f32
  altitude_difference :: f32
  altitude_offset :: f32
  manual_control_yaw :: bool
  manual_control_pitch :: bool
  need_altitude_calibration :: bool

datatype ControlMode = MANUAL | STOP | SCAN | SERVO_TEST | AUTO | INITIALISING

record Parameters =
  startup_delay :: f32
  alt_source :: int
  pitch_trim :: f32

text \<open>
  The servo layer is outside tracking.cpp. The calls the tracking code makes to it are
  recorded in the order they are made.
\<close>

datatype servo_cmd =
    Yaw_disable_out
  | Pitch_enable_out
  | Update_pitch_servo f32
  | Disarm_servos

text \<open>
  The state tracking.cpp works on: the members of \<open>Tracker\<close> it touches and the global
  \<open>delay_timer\<close> (an \<open>int\<close> that holds a value of \<open>millis()\<close>; 32 bits wide).
\<close>

record Tracker =
  vehicle :: VehicleState
  nav_status :: NavStatus
  current_loc :: Location
  old_loc :: Location
  control_mode :: ControlMode
  g :: Parameters
  start_time_ms :: "32 word"
  delay_timer :: "32 word"
  servo_cmds :: "servo_cmd list"

text \<open>
  Modelled from the spec: the enumeration \<open>AP_GPS::GPS_Status\<close> is not under src/. The
  fix qualities are ordered, and the filter asks for a 2D fix at least.
\<close>

datatype GPS_Status =
    NO_GPS
  | NO_FIX
  | GPS_OK_FIX_2D
  | GPS_OK_FIX_3D
  | GPS_OK_FIX_3D_DGPS
  | GPS_OK_FIX_3D_RTK

fun gps_status_value :: "GPS_Status \<Rightarrow> nat" where
  "gps_status_value NO_GPS = 0"
| "gps_status_value NO_FIX = 1"
| "gps_status_value GPS_OK_FIX_2D = 2"
| "gps_status_value GPS_OK_FIX_3D = 3"
| "gps_status_value GPS_OK_FIX_3D_DGPS = 4"
| "gps_status_value GPS_OK_FIX_3D_RTK = 5"

datatype safety_state = SAFETY_NONE | SAFETY_DISARMED | SAFETY_ARMED

text \<open>
  What a call reads from the hardware layer and the sensors: the scheduler's clocks, the
  GPS driver, the safety switch, the attitude reference (pitch in radians) and the local
  barometer. A clock is read once per call.
\<close>

record Inputs =
  micros :: "32 word"
  millis :: "32 word"
  gps_status :: GPS_Status
  gps_location :: Location
  safety_switch_state :: safety_state
  ahrs_pitch :: f32
  barometer_pressure :: f32

text \<open>The fields of the MAVLink messages that tracking.cpp reads.\<close>

record mavlink_global_position_int_t =
  msg_lat :: "32 word"
  msg_lon :: "32 word"
  msg_alt :: "32 word"
  msg_vx :: "16 word"
  msg_vy :: "16 word"
  msg_hdg :: "16 word"

record mavlink_scaled_pressure_t =
  msg_press_abs :: f32

record mavlink_manual_control_t =
  msg_x :: "16 word"
  msg_y :: "16 word"

text \<open>
  The functions tracking.cpp calls that are defined elsewhere in the repository (the
  geometry and math helpers, the barometer's differential altitude, the per-mode
  control strategies). They are parameters: every theorem holds whatever they compute.
  (\<open>location_update_fn\<close> is the source's \<open>location_update\<close>; the plain name is taken by
  the update of the field \<open>location\<close>.)
\<close>

record Helpers =
  location_update_fn :: "Location \<Rightarrow> f32 \<Rightarrow> f32 \<Rightarrow> Location"
  get_bearing_cd :: "Location \<Rightarrow> Location \<Rightarrow> int"
  get_distance :: "Location \<Rightarrow> Location \<Rightarrow> f32"
  atan2f :: "f32 \<Rightarrow> f32 \<Rightarrow> f32"
  degrees :: "f32 \<Rightarrow> f32"
  pythagorous2 :: "f32 \<Rightarrow> f32 \<Rightarrow> f32"
  constrain_float :: "f32 \<Rightarrow> f32 \<Rightarrow> f32 \<Rightarrow> f32"
  get_altitude_difference :: "f32 \<Rightarrow> f32 \<Rightarrow> f32"
  update_auto :: "Tracker \<Rightarrow> Tracker"
  update_manual :: "Tracker \<Rightarrow> Tracker"
  update_scan :: "Tracker \<Rightarrow> Tracker"
  update_servo_test :: "Tracker \<Rightarrow> Tracker"

text \<open>
  Modelled from the spec: the macro \<open>TRACKING_TIMEOUT_SEC\<close> is not under src/; the
  lost-vehicle timeout is 5.0 seconds (and the comment in the code says 5 seconds).
\<close>

definition TRACKING_TIMEOUT_SEC :: f32 where
  "TRACKING_TIMEOUT_SEC = f32_of_int 5"

text \<open>Integer division of C++: the quotient is truncated towards zero.\<close>

definition cdiv :: "int \<Rightarrow> int \<Rightarrow> int" where
  "cdiv a b = (if (a < 0) = (b < 0) then \<bar>a\<bar> div \<bar>b\<bar> else - (\<bar>a\<bar> div \<bar>b\<bar>))"

section \<open>tracking.cpp\<close>

subsection \<open>update_vehicle_pos_estimate\<close>

text \<open>
  \<open>float dt = (hal.scheduler->micros() - vehicle.last_update_us) * 1.0e-6f\<close>: the
  difference of the two unsigned 32-bit counters wraps around, is converted to \<open>float\<close>
  and multiplied.
\<close>

text \<open>
  Modelled from the spec: \<open>hal.scheduler->micros()\<close> is not under src/. It reads a
  monotonic clock: the time since start in microseconds, as an unsigned 32-bit counter,
  which therefore wraps around every 2^32 us (about 71.6 minutes). \<open>micros_at t\<close> is
  what it returns \<open>t\<close> microseconds after start.
\<close>

definition micros_at :: "nat \<Rightarrow> 32 word" where
  "micros_at t = of_nat t"

definition elapsed_dt :: "Inputs \<Rightarrow> Tracker \<Rightarrow> f32" where
  "elapsed_dt i s = f32_mul (f32_of_int (uint (micros i - last_update_us (vehicle s)))) c_1e_6f"

definition update_vehicle_pos_estimate :: "Helpers \<Rightarrow> Inputs \<Rightarrow> Tracker \<Rightarrow> Tracker" where
  "update_vehicle_pos_estimate h i s =
     (let dt = elapsed_dt i s; v = vehicle s
      in if f32_lt dt TRACKING_TIMEOUT_SEC
         then s\<lparr>vehicle := v\<lparr>location_estimate :=
                                 location_update_fn h (location v) (heading v)
                                   (f32_mul (ground_speed v) dt),
                               location_valid := True\<rparr>\<rparr>
         else s\<lparr>vehicle := v\<lparr>location_valid := False\<rparr>\<rparr>)"

subsection \<open>update_tracker_position\<close>

text \<open>
  One axis of the filter, \<open>0.95f * old + 0.05f * raw\<close>, assigned to an integer field:
  both integers are converted to \<open>float\<close>, each product and the sum are rounded, and the
  assignment truncates the sum to an integer.
\<close>

definition blend_axis :: "int \<Rightarrow> int \<Rightarrow> int option" where
  "blend_axis old raw =
     int32_of_f32 (f32_add (f32_mul c_0_95f (f32_of_int old)) (f32_mul c_0_05f (f32_of_int raw)))"

definition update_tracker_position :: "Inputs \<Rightarrow> Tracker \<Rightarrow> Tracker option" where
  "update_tracker_position i s =
     (if gps_status_value GPS_OK_FIX_2D \<le> gps_status_value (gps_status i)
      then
        (let cur = gps_location i;
             old = (if alt (old_loc s) = 0 \<and> lat (old_loc s) = 0 \<and> lng (old_loc s) = 0
                    then gps_location i else old_loc s)
         in case blend_axis (alt old) (alt cur) of
              None \<Rightarrow> None
            | Some new_alt \<Rightarrow>
               (case blend_axis (lat old) (lat cur) of
                  None \<Rightarrow> None
                | Some new_lat \<Rightarrow>
                   (case blend_axis (lng old) (lng cur) of
                      None \<Rightarrow> None
                    | Some new_lng \<Rightarrow>
                       (let cur' = cur\<lparr>alt := new_alt, lat := new_lat, lng := new_lng\<rparr>
                        in Some (s\<lparr>current_loc := cur', old_loc := cur'\<rparr>)))))
      else Some s)"

subsection \<open>update_bearing_and_distance\<close>

definition update_bearing_and_distance :: "Helpers \<Rightarrow> Tracker \<Rightarrow> Tracker" where
  "update_bearing_and_distance h s =
     (if \<not> location_valid (vehicle s) \<or> control_mode s = SERVO_TEST then s
      else
        (let n0 = nav_status s;
             n1 = (if control_mode s \<noteq> SCAN \<and> \<not> manual_control_yaw n0
                   then n0\<lparr>bearing :=
                          f32_mul (f32_of_int (get_bearing_cd h (current_loc s)
                                     (location_estimate (vehicle s)))) c_0_01f\<rparr>
                   else n0);
             n2 = n1\<lparr>distance := get_distance h (current_loc s) (location_estimate (vehicle s))\<rparr>;
             n3 = (if control_mode s \<noteq> SCAN \<and> \<not> manual_control_pitch n2
                   then n2\<lparr>pitch := degrees h (atan2f h (altitude_difference n2) (distance n2))\<rparr>
                   else n2)
         in s\<lparr>nav_status := n3\<rparr>))"

subsection \<open>update_initialising\<close>

text \<open>
  Modelled from the spec: \<open>set_mode\<close> is not under src/; it makes the given mode the
  active control mode.
\<close>

definition set_mode :: "ControlMode \<Rightarrow> Tracker \<Rightarrow> Tracker" where
  "set_mode m s = s\<lparr>control_mode := m\<rparr>"

text \<open>
  The test \<open>g.startup_delay > 0 && hal.scheduler->millis() - t0 < g.startup_delay*1000\<close>,
  which tracking.cpp makes with \<open>t0 = start_time_ms\<close> in \<open>update_tracking\<close> and with
  \<open>t0 = delay_timer\<close> in \<open>update_initialising\<close>. The difference of the counters wraps
  around and is converted to \<open>float\<close> for the comparison.
\<close>

definition startup_delay_running :: "Parameters \<Rightarrow> 32 word \<Rightarrow> 32 word \<Rightarrow> bool" where
  "startup_delay_running p now t0 =
     (f32_gt (startup_delay p) (f32_of_int 0) \<and>
      f32_lt (f32_of_int (uint (now - t0))) (f32_mul (startup_delay p) (f32_of_int 1000)))"

text \<open>The test \<open>ahrs_pitch < 50 && ahrs_pitch > 40\<close> on \<open>degrees(ahrs.pitch)\<close>.\<close>

definition pitch_in_band :: "Helpers \<Rightarrow> Inputs \<Rightarrow> bool" where
  "pitch_in_band h i =
     (f32_lt (degrees h (ahrs_pitch i)) (f32_of_int 50) \<and>
      f32_gt (degrees h (ahrs_pitch i)) (f32_of_int 40))"

definition update_initialising :: "Helpers \<Rightarrow> Inputs \<Rightarrow> Tracker \<Rightarrow> Tracker" where
  "update_initialising h i s =
     (let s1 = s\<lparr>nav_status := (nav_status s)\<lparr>pitch := f32_of_int 45\<rparr>\<rparr>;
          s2 = s1\<lparr>servo_cmds := servo_cmds s1 @ [Yaw_disable_out, Pitch_enable_out]\<rparr>;
          p = constrain_float h (f32_add (pitch (nav_status s2)) (pitch_trim (g s2)))
                (f32_of_int (- 90)) (f32_of_int 90);
          s3 = s2\<lparr>servo_cmds := servo_cmds s2 @ [Update_pitch_servo p]\<rparr>
      in if pitch_in_band h i
         then
           (let s4 = (if delay_timer s3 = 0 then s3\<lparr>delay_timer := millis i\<rparr> else s3)
            in if startup_delay_running (g s4) (millis i) (delay_timer s4) then s4
               else set_mode AUTO s4)
         else s3)"

subsection \<open>update_tracking\<close>

definition disarm_servos :: "Tracker \<Rightarrow> Tracker" where
  "disarm_servos s = s\<lparr>servo_cmds := servo_cmds s @ [Disarm_servos]\<rparr>"

text \<open>The \<open>switch (control_mode)\<close> at the end of \<open>update_tracking\<close>.\<close>

definition mode_dispatch :: "Helpers \<Rightarrow> Inputs \<Rightarrow> Tracker \<Rightarrow> Tracker" where
  "mode_dispatch h i s =
     (case control_mode s of
        AUTO \<Rightarrow> update_auto h s
      | MANUAL \<Rightarrow> update_manual h s
      | SCAN \<Rightarrow> update_scan h s
      | SERVO_TEST \<Rightarrow> update_servo_test h s
      | STOP \<Rightarrow> disarm_servos s
      | INITIALISING \<Rightarrow> update_initialising h i s)"

text \<open>
  The three estimation calls that open \<open>update_tracking\<close>. The result is \<open>None\<close> when
  the position filter converts a \<open>float\<close> that is not an \<open>int32_t\<close>.
\<close>

definition estimation_stage :: "Helpers \<Rightarrow> Inputs \<Rightarrow> Tracker \<Rightarrow> Tracker option" where
  "estimation_stage h i s =
     (case update_tracker_position i (update_vehicle_pos_estimate h i s) of
        None \<Rightarrow> None
      | Some s2 \<Rightarrow> Some (update_bearing_and_distance h s2))"

definition update_tracking :: "Helpers \<Rightarrow> Inputs \<Rightarrow> Tracker \<Rightarrow> Tracker option" where
  "update_tracking h i s =
     (case estimation_stage h i s of
        None \<Rightarrow> None
      | Some s3 \<Rightarrow>
          if startup_delay_running (g s3) (millis i) (start_time_ms s3) then Some s3
          else if safety_switch_state i = SAFETY_DISARMED then Some s3
          else Some (mode_dispatch h i s3))"

subsection \<open>Telemetry handlers\<close>

definition tracking_update_gps_alt :: "Tracker \<Rightarrow> Tracker" where
  "tracking_update_gps_alt s =
     (if location_valid (vehicle s) = True
      then s\<lparr>nav_status := (nav_status s)\<lparr>altitude_difference :=
                f32_of_int (cdiv (alt (location (vehicle s)) - alt (current_loc s)) 100)\<rparr>\<rparr>
      else s)"

definition tracking_update_position ::
  "Helpers \<Rightarrow> Inputs \<Rightarrow> mavlink_global_position_int_t \<Rightarrow> Tracker \<Rightarrow> Tracker" where
  "tracking_update_position h i msg s =
     (let v = vehicle s;
          loc = (location v)\<lparr>lat := sint (msg_lat msg), lng := sint (msg_lon msg),
                              alt := cdiv (sint (msg_alt msg)) 10\<rparr>;
          v' = v\<lparr>location := loc,
                 heading := f32_mul (f32_of_int (uint (msg_hdg msg))) c_0_01f,
                 ground_speed := f32_mul (pythagorous2 h (f32_of_int (sint (msg_vx msg)))
                                            (f32_of_int (sint (msg_vy msg)))) c_0_01f,
                 last_update_us := micros i,
                 last_update_ms := millis i\<rparr>;
          s' = s\<lparr>vehicle := v'\<rparr>
      in if alt_source (g s') = 1 then tracking_update_gps_alt s' else s')"

definition tracking_update_pressure ::
  "Helpers \<Rightarrow> Inputs \<Rightarrow> mavlink_scaled_pressure_t \<Rightarrow> Tracker \<Rightarrow> Tracker" where
  "tracking_update_pressure h i msg s =
     (if alt_source (g s) \<noteq> 0 then s
      else
        (let local_pressure = barometer_pressure i;
             aircraft_pressure = f32_mul (msg_press_abs msg) (f32_of_int 100);
             alt_diff = get_altitude_difference h local_pressure aircraft_pressure;
             n1 = (if \<not> isnan alt_diff
                   then (nav_status s)\<lparr>altitude_difference :=
                          f32_add alt_diff (altitude_offset (nav_status s))\<rparr>
                   else nav_status s);
             n2 = (if need_altitude_calibration n1
                   then n1\<lparr>altitude_offset := f32_neg (altitude_difference n1),
                           altitude_difference := f32_of_int 0,
                           need_altitude_calibration := False\<rparr>
                   else n1)
         in s\<lparr>nav_status := n2\<rparr>))"

definition tracking_manual_control :: "mavlink_manual_control_t \<Rightarrow> Tracker \<Rightarrow> Tracker" where
  "tracking_manual_control msg s =
     s\<lparr>nav_status := (nav_status s)
         \<lparr>bearing := f32_of_int (sint (msg_x msg)),
          pitch := f32_of_int (sint (msg_y msg)),
          distance := f32_zero,
          manual_control_yaw := (sint (msg_x msg) \<noteq> 0x7FFF),
          manual_control_pitch := (sint (msg_y msg) \<noteq> 0x7FFF)\<rparr>\<rparr>"

section \<open>Concrete instances\<close>

text \<open>
  Modelled from the spec: \<open>degrees\<close> is not under src/; it converts radians to degrees,
  in \<open>float\<close> a multiplication by the binary32 number nearest to 180/pi.
\<close>

definition rad_to_deg :: f32 where
  "rad_to_deg = Finite False 15019745 (- 18)"

text \<open>
  An instance of the helpers for the closed statements below (the theorems are proved
  for every instance): a vehicle at rest, 1000 m due east of the tracker and level with
  it, whose pressure samples give a difference of 20 m; \<open>constrain_float\<close> clamps;
  the control strategies of the other modes leave the state alone.
\<close>

definition helpers0 :: Helpers where
  "helpers0 =
     \<lparr>location_update_fn = (\<lambda>loc b d. loc),
      get_bearing_cd = (\<lambda>a b. 9000),
      get_distance = (\<lambda>a b. f32_of_int 1000),
      atan2f = (\<lambda>y x. f32_zero),
      degrees = (\<lambda>r. f32_mul r rad_to_deg),
      pythagorous2 = (\<lambda>a b. f32_zero),
      constrain_float = (\<lambda>amt low high. if f32_lt amt low then low
                                           else if f32_gt amt high then high else amt),
      get_altitude_difference = (\<lambda>p q. f32_of_int 20),
      update_auto = (\<lambda>s. s),
      update_manual = (\<lambda>s. s),
      update_scan = (\<lambda>s. s),
      update_servo_test = (\<lambda>s. s)\<rparr>"

definition loc_zero :: Location where
  "loc_zero = \<lparr>alt = 0, lat = 0, lng = 0\<rparr>"

text \<open>The state at start: nothing received, mode INITIALISING, a startup delay of 5 s.\<close>

definition tracker0 :: Tracker where
  "tracker0 =
     \<lparr>vehicle = \<lparr>location_valid = False, location = loc_zero, location_estimate = loc_zero,
                 last_update_us = 0, last_update_ms = 0,
                 heading = f32_zero, ground_speed = f32_zero\<rparr>,
      nav_status = \<lparr>bearing = f32_zero, distance = f32_zero, pitch = f32_zero,
                    altitude_difference = f32_zero, altitude_offset = f32_zero,
                    manual_control_yaw = False, manual_control_pitch = False,
                    need_altitude_calibration = False\<rparr>,
      current_loc = loc_zero,
      old_loc = loc_zero,
      control_mode = INITIALISING,
      g = \<lparr>startup_delay = f32_of_int 5, alt_source = 0, pitch_trim = f32_zero\<rparr>,
      start_time_ms = 0,
      delay_timer = 0,
      servo_cmds = []\<rparr>"

text \<open>Inputs with no GPS fix, the safety switch disarmed and the antenna level.\<close>

definition inputs0 :: Inputs where
  "inputs0 =
     \<lparr>micros = 0, millis = 0, gps_status = NO_GPS, gps_location = loc_zero,
      safety_switch_state = SAFETY_DISARMED, ahrs_pitch = f32_zero,
      barometer_pressure = f32_of_int 101325\<rparr>"

text \<open>The same state once the tracker is in AUTO and the vehicle's position is valid.\<close>

definition tracker_auto :: Tracker where
  "tracker_auto =
     tracker0\<lparr>control_mode := AUTO,
              vehicle := (vehicle tracker0)\<lparr>location_valid := True\<rparr>\<rparr>"

text \<open>An attitude pitch of 0.7853982 rad, which \<open>degrees\<close> turns into 45.0.\<close>

definition pitch_45 :: f32 where
  "pitch_45 = Finite False 13176795 (- 24)"

text \<open>A GPS fix at 47.3977420 N, 8.5455940 E, 488 m.\<close>

definition home_fix :: Location where
  "home_fix = \<lparr>alt = 48800, lat = 473977420, lng = 85455940\<rparr>"

text \<open>
  A state in GPS-altitude mode (\<open>alt_source = 1\<close>), mode STOP, no startup delay, the
  vehicle's position valid and 100 m above the tracker.
\<close>

definition tracker_gps_alt :: Tracker where
  "tracker_gps_alt =
     tracker0\<lparr>control_mode := STOP,
              g := \<lparr>startup_delay = f32_zero, alt_source = 1, pitch_trim = f32_zero\<rparr>,
              vehicle := (vehicle tracker0)\<lparr>location_valid := True,
                                            location := \<lparr>alt = 10000, lat = 0, lng = 0\<rparr>\<rparr>\<rparr>"

section \<open>Theorems\<close>

subsection \<open>Evaluation of the floating-point operations\<close>

lemmas f32_eval = f32_of_int_def round_f32_def bit_length.simps round_half_even_def
  signed_value_def Let_def

lemmas inst = tracker0_def inputs0_def helpers0_def loc_zero_def tracker_auto_def

lemma literal_values:
  "\<bar>valof c_0_95f - 95 / 100\<bar> \<le> 1 / 2 ^ 25 \<and>
   \<bar>valof c_0_05f - 5 / 100\<bar> \<le> 1 / 2 ^ 29 \<and>
   \<bar>valof c_1e_6f - 1 / 1000000\<bar> \<le> 1 / 2 ^ 44 \<and>
   \<bar>valof c_0_01f - 1 / 100\<bar> \<le> 1 / 2 ^ 31 \<and>
   \<bar>valof rad_to_deg - 5729577951 / 100000000\<bar> \<le> 1 / 2 ^ 19"
  by (simp add: c_0_95f_def c_0_05f_def c_1e_6f_def c_0_01f_def rad_to_deg_def signed_value_def)

lemma round_f32_not_NaN: "round_f32 s m e \<noteq> NaN"
  by (simp add: round_f32_def Let_def)

lemma f32_of_int_not_NaN: "f32_of_int n \<noteq> NaN"
  by (simp add: f32_of_int_def round_f32_not_NaN)

lemma f32_of_int_0: "f32_of_int 0 = f32_zero"
  by (simp add: f32_eval f32_zero_def)

lemma f32_of_int_sentinel: "f32_of_int 0x7FFF = Finite False 16776704 (- 9)"
  by (simp add: f32_eval)

lemma timeout_value: "TRACKING_TIMEOUT_SEC = Finite False 10485760 (- 21)"
  by (simp add: TRACKING_TIMEOUT_SEC_def f32_eval)

subsection \<open>Rounding to nearest\<close>

lemma bit_length_bounds: "0 < m \<Longrightarrow> 2 ^ (bit_length m - 1) \<le> m \<and> m < 2 ^ bit_length m"
proof (induction m rule: bit_length.induct)
  case (1 n)
  show ?case
  proof (cases "n div 2 = 0")
    case True
    then have "n = 1" using 1(2) by auto
    then show ?thesis by (simp add: bit_length.simps)
  next
    case False
    then have ih: "2 ^ (bit_length (n div 2) - 1) \<le> n div 2 \<and> n div 2 < 2 ^ bit_length (n div 2)"
      using 1 by auto
    have bl: "bit_length n = Suc (bit_length (n div 2))"
      using 1(2) by (subst bit_length.simps) simp
    have pos: "0 < bit_length (n div 2)"
      using False by (subst bit_length.simps) simp
    then obtain k where k: "bit_length (n div 2) = Suc k" by (cases "bit_length (n div 2)") auto
    show ?thesis using ih bl k by auto
  qed
qed

lemma bit_length_pos: "0 < m \<Longrightarrow> 0 < bit_length m"
  by (subst bit_length.simps) simp

text \<open>Rounding a quotient to the nearest integer does not cross an integer.\<close>

lemma rhe_le:
  assumes "0 < d" and "m \<le> K * d"
  shows "round_half_even m d \<le> K"
proof -
  have "m div d \<le> (K * d) div d" using assms(2) by (rule div_le_mono)
  then have q: "m div d \<le> K" using assms(1) by simp
  show ?thesis
  proof (cases "m mod d = 0")
    case True
    then show ?thesis using q assms(1) by (simp add: round_half_even_def Let_def)
  next
    case False
    have "m div d \<noteq> K"
    proof
      assume e: "m div d = K"
      have "m = m div d * d + m mod d" by simp
      also have "\<dots> = K * d + m mod d" by (simp only: e)
      finally have "m = K * d + m mod d" .
      then show False using False assms(2) by simp
    qed
    then have "m div d < K" using q by simp
    then show ?thesis by (simp add: round_half_even_def Let_def)
  qed
qed

lemma rhe_ge:
  assumes "0 < d" and "K * d \<le> m"
  shows "K \<le> round_half_even m d"
proof -
  have "(K * d) div d \<le> m div d" using assms(2) by (rule div_le_mono)
  then have "K \<le> m div d" using assms(1) by simp
  then show ?thesis by (simp add: round_half_even_def Let_def)
qed

lemma rhe_ge_half:
  assumes "0 < d" and "even K" and "(2 * K - 1) * d \<le> 2 * m" and "0 < K"
  shows "K \<le> round_half_even m d"
proof (cases "K \<le> m div d")
  case True
  then show ?thesis by (simp add: round_half_even_def Let_def)
next
  case False
  define A where "A = (K - 1) * d"
  have hyp: "2 * A + d \<le> 2 * m"
  proof -
    obtain k where k: "K = Suc k" using assms(4) by (cases K) auto
    have "(2 * K - 1) * d = 2 * A + d" by (simp add: k A_def algebra_simps)
    then show ?thesis using assms(3) by simp
  qed
  have m: "m = (m div d) * d + m mod d" by simp
  have r: "m mod d < d" using assms(1) by simp
  have qe: "m div d = K - 1"
  proof (rule ccontr)
    assume "m div d \<noteq> K - 1"
    then have "m div d + 1 \<le> K - 1" using False by simp
    then have "(m div d + 1) * d \<le> A" unfolding A_def by (rule mult_le_mono1)
    moreover have "m < (m div d + 1) * d"
      using dividend_less_div_times [OF assms(1), of m] by (simp add: algebra_simps)
    ultimately show False using hyp by simp
  qed
  then have odd: "odd (m div d)" using assms(2,4) by simp
  have "m = m div d * d + m mod d" by simp
  also have "\<dots> = A + m mod d" by (simp only: qe A_def)
  finally have "m = A + m mod d" .
  then have "d \<le> 2 * (m mod d)" using hyp by simp
  then show ?thesis
    using odd qe assms(4) by (simp add: round_half_even_def Let_def)
qed


lemma powi_split: "e \<le> E \<Longrightarrow> (2::real) powi E = 2 ^ nat (E - e) * 2 powi e"
proof -
  assume a: "e \<le> E"
  have "(2::real) powi E = 2 powi ((E - e) + e)" by simp
  also have "\<dots> = 2 powi (E - e) * 2 powi e" by (rule power_int_add) simp
  also have "2 powi (E - e) = (2::real) ^ nat (E - e)" using a by (simp add: power_int_nonneg_exp)
  finally show ?thesis .
qed

text \<open>
  The significand that \<open>round_f32\<close> computes for the exponent \<open>E\<close> of the last place.
\<close>

lemma powi_pos: "0 < (2::real) powi E"
  by (simp add: zero_less_power_int)

lemma scale_up:
  fixes m :: nat
  assumes "E \<le> e"
  shows "real m * 2 powi e = real (m * 2 ^ nat (e - E)) * 2 powi E"
  by (subst powi_split [OF assms]) simp

lemma scale_down:
  fixes K :: nat
  assumes "e \<le> E"
  shows "real K * 2 powi E = real (K * 2 ^ nat (E - e)) * 2 powi e"
  by (subst powi_split [OF assms]) simp

lemma significand_le:
  fixes m K :: nat
  assumes Q: "Q = (if E \<le> e then m * 2 ^ nat (e - E) else round_half_even m (2 ^ nat (E - e)))"
    and v: "real m * 2 powi e \<le> real K * 2 powi E"
  shows "Q \<le> K"
proof (cases "E \<le> e")
  case True
  have "real (m * 2 ^ nat (e - E)) * 2 powi E \<le> real K * 2 powi E"
    using v unfolding scale_up [OF True] .
  then have "real (m * 2 ^ nat (e - E)) \<le> real K"
    using powi_pos by (simp only: mult_le_cancel_right_pos)
  then have "m * 2 ^ nat (e - E) \<le> K" using of_nat_le_iff by blast
  then show ?thesis using Q True by simp
next
  case False
  then have le: "e \<le> E" by simp
  have "real m * 2 powi e \<le> real (K * 2 ^ nat (E - e)) * 2 powi e"
    using v unfolding scale_down [OF le] .
  then have "real m \<le> real (K * 2 ^ nat (E - e))"
    using powi_pos by (simp only: mult_le_cancel_right_pos)
  then have "m \<le> K * 2 ^ nat (E - e)" using of_nat_le_iff by blast
  then have "round_half_even m (2 ^ nat (E - e)) \<le> K" by (intro rhe_le) simp_all
  then show ?thesis using Q False by simp
qed

lemma significand_ge:
  fixes m K :: nat
  assumes Q: "Q = (if E \<le> e then m * 2 ^ nat (e - E) else round_half_even m (2 ^ nat (E - e)))"
    and v: "real K * 2 powi E \<le> real m * 2 powi e"
  shows "K \<le> Q"
proof (cases "E \<le> e")
  case True
  have "real K * 2 powi E \<le> real (m * 2 ^ nat (e - E)) * 2 powi E"
    using v unfolding scale_up [OF True] .
  then have "real K \<le> real (m * 2 ^ nat (e - E))"
    using powi_pos by (simp only: mult_le_cancel_right_pos)
  then have "K \<le> m * 2 ^ nat (e - E)" using of_nat_le_iff by blast
  then show ?thesis using Q True by simp
next
  case False
  then have le: "e \<le> E" by simp
  have "real (K * 2 ^ nat (E - e)) * 2 powi e \<le> real m * 2 powi e"
    using v unfolding scale_down [OF le] .
  then have "real (K * 2 ^ nat (E - e)) \<le> real m"
    using powi_pos by (simp only: mult_le_cancel_right_pos)
  then have "K * 2 ^ nat (E - e) \<le> m" using of_nat_le_iff by blast
  then have "K \<le> round_half_even m (2 ^ nat (E - e))" by (intro rhe_ge) simp_all
  then show ?thesis using Q False by simp
qed

lemma significand_ge_half:
  fixes m K :: nat
  assumes Q: "Q = (if E \<le> e then m * 2 ^ nat (e - E) else round_half_even m (2 ^ nat (E - e)))"
    and v: "(2 * real K - 1) * 2 powi E \<le> 2 * (real m * 2 powi e)"
    and K: "even K" "0 < K"
  shows "K \<le> Q"
proof (cases "E \<le> e")
  case True
  have "(2 * real K - 1) * 2 powi E \<le> 2 * (real (m * 2 ^ nat (e - E)) * 2 powi E)"
    using v unfolding scale_up [OF True] .
  then have "(2 * real K - 1) * 2 powi E \<le> (2 * real (m * 2 ^ nat (e - E))) * 2 powi E"
    by (simp only: mult.assoc)
  then have "2 * real K - 1 \<le> 2 * real (m * 2 ^ nat (e - E))"
    using powi_pos by (simp only: mult_le_cancel_right_pos)
  then have "2 * K \<le> 2 * (m * 2 ^ nat (e - E)) + 1" by linarith
  then have "K \<le> m * 2 ^ nat (e - E)" by simp
  then show ?thesis using Q True by simp
next
  case False
  then have le: "e \<le> E" by simp
  have ps: "(2::real) powi E = 2 ^ nat (E - e) * 2 powi e" by (rule powi_split [OF le])
  have "(2 * real K - 1) * (2 ^ nat (E - e) * 2 powi e) \<le> 2 * (real m * 2 powi e)"
    using v unfolding ps .
  then have "((2 * real K - 1) * 2 ^ nat (E - e)) * 2 powi e \<le> (2 * real m) * 2 powi e"
    by (simp only: mult.assoc)
  then have r: "(2 * real K - 1) * 2 ^ nat (E - e) \<le> 2 * real m"
    using powi_pos by (simp only: mult_le_cancel_right_pos)
  have "real ((2 * K - 1) * 2 ^ nat (E - e)) = (2 * real K - 1) * 2 ^ nat (E - e)"
    using K(2) by (simp add: of_nat_diff)
  then have "real ((2 * K - 1) * 2 ^ nat (E - e)) \<le> real (2 * m)" using r by simp
  then have "(2 * K - 1) * 2 ^ nat (E - e) \<le> 2 * m" using of_nat_le_iff by blast
  then have "K \<le> round_half_even m (2 ^ nat (E - e))"
    using K by (intro rhe_ge_half) simp_all
  then show ?thesis using Q False by simp
qed

lemma round_f32_normal:
  fixes m :: nat and e :: int
  assumes "0 < m" and j: "j = e + int (bit_length m)" and lo: "- 125 \<le> j" and hi: "j \<le> 127"
  shows "\<exists>q E. round_f32 s m e = Finite s q E \<and>
           real q * 2 powi E =
             real (if j - 24 \<le> e then m * 2 ^ nat (e - (j - 24))
                   else round_half_even m (2 ^ nat (j - 24 - e))) * 2 powi (j - 24)"
proof -
  define Q where "Q = (if j - 24 \<le> e then m * 2 ^ nat (e - (j - 24))
                   else round_half_even m (2 ^ nat (j - 24 - e)))"
  have E: "max (e + int (bit_length m) - 24) (- 149) = j - 24" using j lo by simp
  have r: "round_f32 s m e =
      (if Q = 0 then Finite s 0 (- 149)
       else if Q = 2 ^ 24 then Finite s (2 ^ 23) (j - 24 + 1)
       else Finite s Q (j - 24))"
    using hi by (simp add: round_f32_def E Let_def Q_def)
  have c: "real ((2::nat) ^ 23) * 2 powi (j - 24 + 1) = real ((2::nat) ^ 24) * 2 powi (j - 24)"
    using powi_split [of "j - 24" "j - 24 + 1"] by simp
  show ?thesis
    unfolding Q_def [symmetric] using r c by auto
qed


lemma powi_mono: "a \<le> b \<Longrightarrow> (2::real) powi a \<le> 2 powi b"
  by (rule power_int_increasing) simp_all

lemma powi_exp_less: "(2::real) powi a \<le> x \<Longrightarrow> x < 2 powi b \<Longrightarrow> a < b"
proof (rule ccontr)
  assume 1: "(2::real) powi a \<le> x" and 2: "x < 2 powi b" and "\<not> a < b"
  then have "(2::real) powi b \<le> 2 powi a" by (intro powi_mono) simp
  then show False using 1 2 by simp
qed

lemma value_bracket:
  fixes m :: nat
  assumes "0 < m" and j: "j = e + int (bit_length m)"
  shows "2 powi (j - 1) \<le> real m * 2 powi e \<and> real m * 2 powi e < 2 powi j"
proof -
  have b: "2 ^ (bit_length m - 1) \<le> m \<and> m < 2 ^ bit_length m"
    using assms(1) by (rule bit_length_bounds)
  have p: "0 < bit_length m" using assms(1) by (rule bit_length_pos)
  have n1: "nat (j - 1 - e) = bit_length m - 1" using j p by simp
  have n2: "nat (j - e) = bit_length m" using j by simp
  have l: "(2::real) powi (j - 1) = 2 ^ (bit_length m - 1) * 2 powi e"
    using powi_split [of e "j - 1"] j p n1 by simp
  have u: "(2::real) powi j = 2 ^ bit_length m * 2 powi e"
    using powi_split [of e j] j n2 by simp
  have "real (2 ^ (bit_length m - 1)) \<le> real m" using b of_nat_le_iff by blast
  then have "(2::real) ^ (bit_length m - 1) \<le> real m" by simp
  then have lo: "2 ^ (bit_length m - 1) * 2 powi e \<le> real m * 2 powi e"
    using powi_pos by (simp only: mult_le_cancel_right_pos)
  have "real m < real (2 ^ bit_length m)" using b of_nat_less_iff by blast
  then have "real m < 2 ^ bit_length m" by simp
  then have hi: "real m * 2 powi e < 2 ^ bit_length m * 2 powi e"
    using powi_pos by (simp only: mult_less_cancel_right_pos)
  show ?thesis using lo hi l u by simp
qed

text \<open>
  Rounding to nearest does not cross a number that lies on the grid of the result, and
  it reaches an even grid point from half a step below it.
\<close>

lemma round_f32_le_representable:
  fixes m b :: nat
  assumes m: "0 < m" and j: "j = e + int (bit_length m)" and lo: "- 125 \<le> j" and hi: "j \<le> 127"
    and g: "j - 24 \<le> eb" and v: "real m * 2 powi e \<le> real b * 2 powi eb"
  shows "\<exists>q E. round_f32 s m e = Finite s q E \<and> real q * 2 powi E \<le> real b * 2 powi eb"
proof -
  define Q where "Q = (if j - 24 \<le> e then m * 2 ^ nat (e - (j - 24))
                   else round_half_even m (2 ^ nat (j - 24 - e)))"
  obtain q E where r: "round_f32 s m e = Finite s q E"
    and val: "real q * 2 powi E = real Q * 2 powi (j - 24)"
    using round_f32_normal [OF m j lo hi, of s] unfolding Q_def by blast
  have "real m * 2 powi e \<le> real (b * 2 ^ nat (eb - (j - 24))) * 2 powi (j - 24)"
    using v unfolding scale_down [OF g] .
  then have "Q \<le> b * 2 ^ nat (eb - (j - 24))"
    using Q_def by (rule significand_le [rotated])
  then have "real Q \<le> real (b * 2 ^ nat (eb - (j - 24)))" using of_nat_le_iff by blast
  then have "real Q * 2 powi (j - 24) \<le> real (b * 2 ^ nat (eb - (j - 24))) * 2 powi (j - 24)"
    using powi_pos by (simp only: mult_le_cancel_right_pos)
  then have "real q * 2 powi E \<le> real b * 2 powi eb"
    unfolding val scale_down [OF g] .
  then show ?thesis using r by blast
qed

lemma round_f32_ge_representable:
  fixes m b :: nat
  assumes m: "0 < m" and j: "j = e + int (bit_length m)" and lo: "- 125 \<le> j" and hi: "j \<le> 127"
    and g: "j - 24 \<le> eb" and v: "real b * 2 powi eb \<le> real m * 2 powi e"
  shows "\<exists>q E. round_f32 s m e = Finite s q E \<and> real b * 2 powi eb \<le> real q * 2 powi E"
proof -
  define Q where "Q = (if j - 24 \<le> e then m * 2 ^ nat (e - (j - 24))
                   else round_half_even m (2 ^ nat (j - 24 - e)))"
  obtain q E where r: "round_f32 s m e = Finite s q E"
    and val: "real q * 2 powi E = real Q * 2 powi (j - 24)"
    using round_f32_normal [OF m j lo hi, of s] unfolding Q_def by blast
  have "real (b * 2 ^ nat (eb - (j - 24))) * 2 powi (j - 24) \<le> real m * 2 powi e"
    using v unfolding scale_down [OF g] .
  then have "b * 2 ^ nat (eb - (j - 24)) \<le> Q"
    using Q_def by (rule significand_ge [rotated])
  then have "real (b * 2 ^ nat (eb - (j - 24))) \<le> real Q" using of_nat_le_iff by blast
  then have "real (b * 2 ^ nat (eb - (j - 24))) * 2 powi (j - 24) \<le> real Q * 2 powi (j - 24)"
    using powi_pos by (simp only: mult_le_cancel_right_pos)
  then have "real b * 2 powi eb \<le> real q * 2 powi E"
    unfolding val scale_down [OF g] .
  then show ?thesis using r by blast
qed

lemma round_f32_ge_half:
  fixes m K :: nat
  assumes m: "0 < m" and j: "j = e + int (bit_length m)" and lo: "- 125 \<le> j" and hi: "j \<le> 127"
    and v: "(2 * real K - 1) * 2 powi (j - 24) \<le> 2 * (real m * 2 powi e)"
    and K: "even K" "0 < K"
  shows "\<exists>q E. round_f32 s m e = Finite s q E \<and> real K * 2 powi (j - 24) \<le> real q * 2 powi E"
proof -
  define Q where "Q = (if j - 24 \<le> e then m * 2 ^ nat (e - (j - 24))
                   else round_half_even m (2 ^ nat (j - 24 - e)))"
  obtain q E where r: "round_f32 s m e = Finite s q E"
    and val: "real q * 2 powi E = real Q * 2 powi (j - 24)"
    using round_f32_normal [OF m j lo hi, of s] unfolding Q_def by blast
  have "K \<le> Q" using Q_def v K by (rule significand_ge_half)
  then have "real K \<le> real Q" using of_nat_le_iff by blast
  then have "real K * 2 powi (j - 24) \<le> real Q * 2 powi (j - 24)"
    using powi_pos by (simp only: mult_le_cancel_right_pos)
  then show ?thesis using r val by auto
qed

lemma f32_lt_valof:
  "f32_lt (Finite False m1 e1) (Finite False m2 e2) = (real m1 * 2 powi e1 < real m2 * 2 powi e2)"
proof -
  define e where "e = min e1 e2"
  have 1: "e \<le> e1" and 2: "e \<le> e2" by (simp_all add: e_def)
  have a: "real m1 * 2 powi e1 = real (m1 * 2 ^ nat (e1 - e)) * 2 powi e"
    by (rule scale_down [OF 1])
  have b: "real m2 * 2 powi e2 = real (m2 * 2 ^ nat (e2 - e)) * 2 powi e"
    by (rule scale_down [OF 2])
  have "f32_lt (Finite False m1 e1) (Finite False m2 e2) =
      (int m1 * 2 ^ nat (e1 - e) < int m2 * 2 ^ nat (e2 - e))"
    by (simp add: Let_def signed_value_def e_def)
  also have "\<dots> = (int (m1 * 2 ^ nat (e1 - e)) < int (m2 * 2 ^ nat (e2 - e)))"
    by simp
  also have "\<dots> = (m1 * 2 ^ nat (e1 - e) < m2 * 2 ^ nat (e2 - e))"
    by (simp only: of_nat_less_iff)
  also have "\<dots> = (real (m1 * 2 ^ nat (e1 - e)) < real (m2 * 2 ^ nat (e2 - e)))"
    by (simp only: of_nat_less_iff)
  also have "\<dots> = (real (m1 * 2 ^ nat (e1 - e)) * 2 powi e < real (m2 * 2 ^ nat (e2 - e)) * 2 powi e)"
    using powi_pos by (simp only: mult_less_cancel_right_pos)
  finally show ?thesis unfolding a b .
qed

lemma bit_length_le:
  assumes "0 < n" and "n < 2 ^ k"
  shows "bit_length n \<le> k"
proof -
  have "2 ^ (bit_length n - 1) \<le> n" using bit_length_bounds [OF assms(1)] by simp
  then have "(2::nat) ^ (bit_length n - 1) < 2 ^ k" using assms(2) by (rule le_less_trans)
  then have "bit_length n - 1 < k" by (rule power_less_imp_less_exp [rotated]) simp
  then show ?thesis by simp
qed

lemma f32_of_nat_exact:
  assumes "0 < n" and "n < 2 ^ 24"
  shows "\<exists>q E. round_f32 False n 0 = Finite False q E \<and> real q * 2 powi E = real n"
proof -
  define j where "j = 0 + int (bit_length n)"
  have bl: "bit_length n \<le> 24" using assms by (rule bit_length_le)
  have lo: "- 125 \<le> j" and hi: "j \<le> 127" and g: "j - 24 \<le> 0"
    using bl by (simp_all add: j_def)
  have v: "real n * 2 powi 0 \<le> real n * 2 powi 0" by simp
  obtain q E where r: "round_f32 False n 0 = Finite False q E"
    and le: "real q * 2 powi E \<le> real n * 2 powi 0"
    using round_f32_le_representable [OF assms(1) j_def lo hi g v, of False] by blast
  obtain q' E' where r': "round_f32 False n 0 = Finite False q' E'"
    and ge: "real n * 2 powi 0 \<le> real q' * 2 powi E'"
    using round_f32_ge_representable [OF assms(1) j_def lo hi g v, of False] by blast
  have "q' = q" "E' = E" using r r' by simp_all
  then have "real q * 2 powi E = real n" using le ge by simp
  then show ?thesis using r by blast
qed

lemma f32_of_nat_big:
  assumes "2 ^ 24 \<le> n" and "n < 2 ^ 32"
  shows "\<exists>q E. round_f32 False n 0 = Finite False q E \<and>
           2 ^ 24 \<le> real q * 2 powi E \<and> real q * 2 powi E \<le> 2 ^ 32"
proof -
  have pos: "0 < n" using assms(1) by (simp add: less_le_trans [of 0 "2 ^ 24" n])
  define j where "j = 0 + int (bit_length n)"
  have bl: "bit_length n \<le> 32" using pos assms(2) by (rule bit_length_le)
  have lo: "- 125 \<le> j" and hi: "j \<le> 127" and g1: "j - 24 \<le> 24" and g2: "j - 24 \<le> 32"
    using bl by (simp_all add: j_def)
  have "real (2 ^ 24) \<le> real n" using assms(1) of_nat_le_iff by blast
  then have v1: "real (1::nat) * 2 powi 24 \<le> real n * 2 powi 0" by simp
  have "n \<le> 2 ^ 32" using assms(2) by simp
  then have "real n \<le> real (2 ^ 32)" using of_nat_le_iff by blast
  then have v2: "real n * 2 powi 0 \<le> real (1::nat) * 2 powi 32" by simp
  obtain q E where r: "round_f32 False n 0 = Finite False q E"
    and le: "real q * 2 powi E \<le> real (1::nat) * 2 powi 32"
    using round_f32_le_representable [OF pos j_def lo hi g2 v2, of False] by blast
  obtain q' E' where r': "round_f32 False n 0 = Finite False q' E'"
    and ge: "real (1::nat) * 2 powi 24 \<le> real q' * 2 powi E'"
    using round_f32_ge_representable [OF pos j_def lo hi g1 v1, of False] by blast
  have "q' = q" "E' = E" using r r' by simp_all
  then have "2 ^ 24 \<le> real q * 2 powi E \<and> real q * 2 powi E \<le> 2 ^ 32" using le ge by simp
  then show ?thesis using r by blast
qed


lemma f32_of_nat_value:
  assumes "0 < n" and "n < 2 ^ 32"
  shows "\<exists>q E. round_f32 False n 0 = Finite False q E \<and>
           (n < 5000000 \<longrightarrow> real q * 2 powi E = real n) \<and>
           (5000000 \<le> n \<longrightarrow> 5000000 \<le> real q * 2 powi E) \<and>
           1 \<le> real q * 2 powi E \<and> real q * 2 powi E \<le> 2 ^ 32"
proof (cases "n < 2 ^ 24")
  case True
  obtain q E where r: "round_f32 False n 0 = Finite False q E"
    and x: "real q * 2 powi E = real n"
    using f32_of_nat_exact [OF assms(1) True] by blast
  have "1 \<le> real n" using assms(1) by simp
  moreover have "n \<le> 2 ^ 32" using assms(2) by simp
  then have "real n \<le> real (2 ^ 32)" using of_nat_le_iff by blast
  ultimately show ?thesis using r x by auto
next
  case False
  then have big: "2 ^ 24 \<le> n" by simp
  obtain q E where r: "round_f32 False n 0 = Finite False q E"
    and x: "2 ^ 24 \<le> real q * 2 powi E" "real q * 2 powi E \<le> 2 ^ 32"
    using f32_of_nat_big [OF big assms(2)] by blast
  have "\<not> n < 5000000" using big by simp
  then show ?thesis using r x by auto
qed

text \<open>
  The comparison \<open>dt < 5.0\<close> on the elapsed microseconds: rounding does not move the
  threshold.
\<close>

lemma dt_threshold:
  fixes n :: nat
  assumes "n < 2 ^ 32"
  shows "f32_lt (f32_mul (round_f32 False n 0) c_1e_6f) (Finite False 10485760 (- 21)) =
           (n < 5000000)"
proof (cases "n = 0")
  case True
  then show ?thesis
    by (simp add: round_f32_def round_half_even_def bit_length.simps c_1e_6f_def Let_def
        signed_value_def)
next
  case False
  then have pos: "0 < n" by simp
  obtain q E where X: "round_f32 False n 0 = Finite False q E"
    and small: "n < 5000000 \<longrightarrow> real q * 2 powi E = real n"
    and large: "5000000 \<le> n \<longrightarrow> 5000000 \<le> real q * 2 powi E"
    and x1: "1 \<le> real q * 2 powi E" and x2: "real q * 2 powi E \<le> 2 ^ 32"
    using f32_of_nat_value [OF pos assms] by blast
  define x where "x = real q * 2 powi E"
  define cv :: real where "cv = 8796093 / 2 ^ 43"
  define m where "m = q * 8796093"
  define j where "j = (E - 43) + int (bit_length m)"
  have qpos: "0 < q" using x1 by (cases "q = 0") simp_all
  then have mpos: "0 < m" by (simp add: m_def)
  have dt: "f32_mul (round_f32 False n 0) c_1e_6f = round_f32 False m (E - 43)"
    by (simp add: X c_1e_6f_def m_def)
  have p: "(2::real) powi (E - 43) = 2 powi E * 2 powi (- 43)"
    using power_int_add [of "2::real" E "- 43"] by simp
  have v: "real m * 2 powi (E - 43) = x * cv"
    unfolding p by (simp add: m_def x_def cv_def)
  have br: "2 powi (j - 1) \<le> x * cv \<and> x * cv < 2 powi j"
    using value_bracket [OF mpos j_def] unfolding v .
  have xx1: "1 \<le> x" and xx2: "x \<le> 2 ^ 32" using x1 x2 by (simp_all add: x_def)
  have cpos: "0 < cv" by (simp add: cv_def)
  have "1 * cv \<le> x * cv" using xx1 cpos by (simp only: mult_le_cancel_right_pos)
  then have "2 powi (- 20) \<le> x * cv" by (simp add: cv_def)
  then have jlo: "- 20 < j" using br powi_exp_less by blast
  have "x * cv \<le> 2 ^ 32 * cv" using xx2 cpos by (simp only: mult_le_cancel_right_pos)
  then have "x * cv < 2 powi 13" by (simp add: cv_def)
  then have jhi: "j - 1 < 13" using br powi_exp_less by blast
  have lo: "- 125 \<le> j" and hi: "j \<le> 127" using jlo jhi by simp_all
  show ?thesis
  proof (cases "n < 5000000")
    case True
    then have "x = real n" using small by (simp add: x_def)
    moreover have "real n \<le> 4999999" using True by simp
    ultimately have "x * cv \<le> 4999999 * cv"
      using cpos by (simp only: mult_le_cancel_right_pos)
    then have b1: "x * cv \<le> real (10485759::nat) * 2 powi (- 21)" by (simp add: cv_def)
    then have "x * cv < 2 powi 3" by simp
    then have "j - 1 < 3" using br powi_exp_less by blast
    then have g: "j - 24 \<le> - 21" by simp
    have vb: "real m * 2 powi (E - 43) \<le> real (10485759::nat) * 2 powi (- 21)"
      unfolding v by (rule b1)
    obtain q' E' where r: "round_f32 False m (E - 43) = Finite False q' E'"
      and le: "real q' * 2 powi E' \<le> real (10485759::nat) * 2 powi (- 21)"
      using round_f32_le_representable [OF mpos j_def lo hi g vb, of False] by blast
    have "real q' * 2 powi E' < real (10485760::nat) * 2 powi (- 21)" using le by simp
    then show ?thesis using True by (simp only: dt r f32_lt_valof)
  next
    case False
    then have "5000000 \<le> x" using large by (simp add: x_def)
    then have "5000000 * cv \<le> x * cv" using cpos by (simp only: mult_le_cancel_right_pos)
    then have vlo: "43980465 / 8796093022208 * 1000000 \<le> x * cv" by (simp add: cv_def)
    have "\<exists>q' E'. round_f32 False m (E - 43) = Finite False q' E' \<and>
            real (10485760::nat) * 2 powi (- 21) \<le> real q' * 2 powi E'"
    proof (cases "j \<le> 3")
      case True
      have "2 powi 2 \<le> x * cv" using vlo by simp
      then have "2 < j" using br powi_exp_less by blast
      then have j3: "j = 3" using True by simp
      have "(2 * real (10485760::nat) - 1) * 2 powi (- 21) \<le> 2 * (x * cv)" using vlo by simp
      then have h: "(2 * real (10485760::nat) - 1) * 2 powi (j - 24) \<le> 2 * (real m * 2 powi (E - 43))"
        unfolding v by (simp add: j3)
      obtain q' E' where r: "round_f32 False m (E - 43) = Finite False q' E'"
        and ge: "real (10485760::nat) * 2 powi (j - 24) \<le> real q' * 2 powi E'"
        using round_f32_ge_half [OF mpos j_def lo hi h, of False] by auto
      then show ?thesis using j3 by auto
    next
      case False
      then have "3 \<le> j - 1" by simp
      then have "(2::real) powi 3 \<le> 2 powi (j - 1)" by (rule powi_mono)
      then have "real (1::nat) * 2 powi 3 \<le> x * cv" using br by simp
      then have vb: "real (1::nat) * 2 powi 3 \<le> real m * 2 powi (E - 43)" unfolding v .
      have g: "j - 24 \<le> 3" using jhi by simp
      obtain q' E' where r: "round_f32 False m (E - 43) = Finite False q' E'"
        and ge: "real (1::nat) * 2 powi 3 \<le> real q' * 2 powi E'"
        using round_f32_ge_representable [OF mpos j_def lo hi g vb, of False] by blast
      have "real (10485760::nat) * 2 powi (- 21) \<le> real (1::nat) * 2 powi 3" by simp
      then show ?thesis using r ge by (meson order_trans)
    qed
    then obtain q' E' where r: "round_f32 False m (E - 43) = Finite False q' E'"
      and ge: "real (10485760::nat) * 2 powi (- 21) \<le> real q' * 2 powi E'" by blast
    have "\<not> real q' * 2 powi E' < real (10485760::nat) * 2 powi (- 21)" using ge by simp
    then show ?thesis using False by (simp only: dt r f32_lt_valof)
  qed
qed

subsection \<open>Vehicle state estimator\<close>

lemma elapsed_dt_not_NaN: "elapsed_dt i s \<noteq> NaN"
proof (cases "f32_of_int (uint (micros i - last_update_us (vehicle s)))")
  case (Finite sg m e)
  then show ?thesis by (simp add: elapsed_dt_def c_1e_6f_def round_f32_not_NaN)
next
  case (Infinity sg)
  then show ?thesis by (simp add: elapsed_dt_def c_1e_6f_def)
next
  case NaN
  then show ?thesis using f32_of_int_not_NaN by blast
qed

lemma elapsed_dt_zero: "micros i = last_update_us (vehicle s) \<Longrightarrow> elapsed_dt i s = f32_zero"
  by (simp add: elapsed_dt_def c_1e_6f_def f32_zero_def f32_eval)

lemma elapsed_dt_lt_timeout:
  "f32_lt (elapsed_dt i s) TRACKING_TIMEOUT_SEC =
     (uint (micros i - last_update_us (vehicle s)) < 5000000)"
proof -
  define d where "d = micros i - last_update_us (vehicle s)"
  have b: "unat d < 2 ^ 32" using unsigned_less [of d] by simp
  have c: "f32_of_int (uint d) = round_f32 False (unat d) 0"
    by (simp add: f32_of_int_def)
  have "f32_lt (elapsed_dt i s) TRACKING_TIMEOUT_SEC = (unat d < 5000000)"
    unfolding elapsed_dt_def timeout_value d_def [symmetric] c by (rule dt_threshold [OF b])
  also have "\<dots> = (uint d < 5000000)"
  proof -
    have e: "uint d = int (unat d)" by (rule uint_nat)
    have "(int (unat d) < int 5000000) = (unat d < 5000000)" by (rule of_nat_less_iff)
    then show ?thesis unfolding e by simp
  qed
  finally show ?thesis unfolding d_def .
qed

text \<open>
  The microsecond counter wraps around: 100 us before the wrap to 100 us after it is an
  elapsed time of 200 us, and a counter that has run a full turn and one second since the
  last update gives \<open>dt\<close> = 1 s.
\<close>

lemma elapsed_dt_wraps:
  "elapsed_dt (inputs0\<lparr>micros := 100\<rparr>)
     (tracker0\<lparr>vehicle := (vehicle tracker0)\<lparr>last_update_us := 0xFFFFFF9C\<rparr>\<rparr>) =
     f32_mul (f32_of_int 200) c_1e_6f \<and>
   elapsed_dt (inputs0\<lparr>micros := 3000000\<rparr>)
     (tracker0\<lparr>vehicle := (vehicle tracker0)\<lparr>last_update_us := 2000000\<rparr>\<rparr>) =
     f32_mul (f32_of_int 1000000) c_1e_6f"
  by (simp add: elapsed_dt_def)

text \<open>
  A tick of the vehicle state estimator, on \<open>dt\<close> as the code computes it from the two
  counters: \<open>dt\<close> is never NaN, so that one of \<open>dt < 5.0\<close> and \<open>dt >= 5.0\<close> holds, and
  \<open>dt < 5.0\<close> holds exactly when the microsecond counter has advanced by less than
  5000000 since the last update. If \<open>dt < 5.0\<close>, the location estimate is the last-known
  location advanced along the last-known heading by \<open>ground_speed * dt\<close> (the product as
  \<open>float\<close>, handed to \<open>location_update\<close>) and \<open>location_valid\<close> is true. If
  \<open>dt >= 5.0\<close>, \<open>location_valid\<close> is false whatever it was and the estimate is left as it
  was. When the counter has not advanced, \<open>dt\<close> is 0 and the distance handed over is
  \<open>ground_speed * 0\<close>; the estimate is then the last-known location as soon as
  \<open>location_update\<close> leaves a location in place for that distance.
\<close>

theorem vehicle_pos_estimate_tick:
  "(let dt = elapsed_dt i s; v = vehicle s;
        v' = vehicle (update_vehicle_pos_estimate h i s)
    in (f32_lt dt TRACKING_TIMEOUT_SEC \<or> f32_ge dt TRACKING_TIMEOUT_SEC) \<and>
       f32_lt dt TRACKING_TIMEOUT_SEC = (uint (micros i - last_update_us v) < 5000000) \<and>
       (f32_lt dt TRACKING_TIMEOUT_SEC \<longrightarrow>
          v' = v\<lparr>location_estimate :=
                    location_update_fn h (location v) (heading v) (f32_mul (ground_speed v) dt),
                  location_valid := True\<rparr>) \<and>
       (f32_ge dt TRACKING_TIMEOUT_SEC \<longrightarrow>
          v' = v\<lparr>location_valid := False\<rparr> \<and> \<not> location_valid v' \<and>
          location_estimate v' = location_estimate v) \<and>
       (micros i = last_update_us v \<longrightarrow> dt = f32_zero \<and> f32_lt dt TRACKING_TIMEOUT_SEC) \<and>
       (micros i = last_update_us v \<and>
        location_update_fn h (location v) (heading v) (f32_mul (ground_speed v) f32_zero) =
          location v \<longrightarrow>
          location_valid v' \<and> location_estimate v' = location v))"
proof -
  have nan: "elapsed_dt i s \<noteq> NaN" by (rule elapsed_dt_not_NaN)
  have z: "micros i = last_update_us (vehicle s) \<Longrightarrow> elapsed_dt i s = f32_zero"
    by (rule elapsed_dt_zero)
  have zlt: "f32_lt f32_zero TRACKING_TIMEOUT_SEC"
    by (simp add: timeout_value f32_zero_def signed_value_def)
  have th: "f32_lt (elapsed_dt i s) TRACKING_TIMEOUT_SEC =
      (uint (micros i - last_update_us (vehicle s)) < 5000000)"
    by (rule elapsed_dt_lt_timeout)
  have ge: "f32_ge (elapsed_dt i s) TRACKING_TIMEOUT_SEC =
      (\<not> f32_lt (elapsed_dt i s) TRACKING_TIMEOUT_SEC)"
    using nan by (simp add: f32_ge_def timeout_value)
  show ?thesis
    unfolding Let_def ge using z zlt th
    by (auto simp add: update_vehicle_pos_estimate_def Let_def)
qed

theorem vehicle_pos_estimate_tick_witness:
  "location_valid (vehicle (update_vehicle_pos_estimate helpers0 (inputs0\<lparr>micros := 2000000\<rparr>) tracker0)) \<and>
   location_estimate (vehicle (update_vehicle_pos_estimate helpers0 (inputs0\<lparr>micros := 2000000\<rparr>) tracker0)) =
     location_update_fn helpers0 loc_zero f32_zero (f32_mul f32_zero (Finite False 8388608 (- 22))) \<and>
   location_valid (vehicle (update_vehicle_pos_estimate helpers0 (inputs0\<lparr>micros := 6000000\<rparr>)
      tracker_auto)) = False \<and>
   location_estimate (vehicle (update_vehicle_pos_estimate helpers0 inputs0 tracker0)) = loc_zero"
  using vehicle_pos_estimate_tick [of "inputs0\<lparr>micros := 2000000\<rparr>" tracker0 helpers0]
    vehicle_pos_estimate_tick [of "inputs0\<lparr>micros := 6000000\<rparr>" tracker_auto helpers0]
    vehicle_pos_estimate_tick [of inputs0 tracker0 helpers0]
  by (simp add: inst elapsed_dt_def c_1e_6f_def timeout_value f32_ge_def f32_zero_def f32_eval)

text \<open>
  In terms of the time on the clock: with the last update at \<open>t_last\<close> and the tick at
  \<open>t_now\<close> microseconds after start, the tick sets \<open>location_valid\<close> to whether the
  elapsed time, taken modulo 2^32 us, is below 5000000 us. As long as less than 2^32 us
  (about 71.6 minutes) have passed since the last update, that is whether less than 5 s
  have passed.
\<close>

lemma micros_at_elapsed:
  assumes "t_last \<le> t_now"
  shows "uint (micros_at t_now - micros_at t_last) = int ((t_now - t_last) mod 2 ^ 32)"
proof -
  have "micros_at t_now - micros_at t_last = (of_nat (t_now - t_last) :: 32 word)"
    using assms by (simp add: micros_at_def of_nat_diff)
  moreover have "unat (of_nat (t_now - t_last) :: 32 word) = (t_now - t_last) mod 2 ^ 32"
    by (simp add: unat_of_nat)
  ultimately show ?thesis by (simp add: uint_nat)
qed

lemma location_valid_iff:
  "location_valid (vehicle (update_vehicle_pos_estimate h i s)) =
     (uint (micros i - last_update_us (vehicle s)) < 5000000)"
  using elapsed_dt_lt_timeout [of i s]
  by (simp add: update_vehicle_pos_estimate_def Let_def)

lemma last_update_us_tick:
  "last_update_us (vehicle (update_vehicle_pos_estimate h i s)) = last_update_us (vehicle s)"
  by (simp add: update_vehicle_pos_estimate_def Let_def)

lemma location_valid_modulo:
  assumes "micros i = micros_at t_now" and "last_update_us (vehicle s) = micros_at t_last"
    and "t_last \<le> t_now"
  shows "location_valid (vehicle (update_vehicle_pos_estimate h i s)) =
           ((t_now - t_last) mod 2 ^ 32 < 5000000)"
proof -
  have "uint (micros i - last_update_us (vehicle s)) = int ((t_now - t_last) mod 2 ^ 32)"
    using assms micros_at_elapsed by simp
  moreover have "(int ((t_now - t_last) mod 2 ^ 32) < int 5000000) =
      ((t_now - t_last) mod 2 ^ 32 < 5000000)" by (rule of_nat_less_iff)
  ultimately show ?thesis unfolding location_valid_iff by simp
qed

lemma location_valid_before_wrap:
  assumes "micros i = micros_at t_now" and "last_update_us (vehicle s) = micros_at t_last"
    and "t_last \<le> t_now" and "t_now - t_last < 2 ^ 32"
  shows "location_valid (vehicle (update_vehicle_pos_estimate h i s)) =
           (t_now - t_last < 5000000)"
  using location_valid_modulo [OF assms(1-3), of h] assms(4) by simp

text \<open>
  C1: the claim is that a tick with \<open>dt >= 5.0\<close> s since the last telemetry update sets
  \<open>location_valid\<close> to false, and the comments of the code say the same ("time since
  last actual position update", "vehicle has been lost, set lost flag"). The code
  breaks it once the microsecond counter has wrapped around. With the last update 3 s
  after start and the position valid, the tick 6 s later sets \<open>location_valid\<close> to
  false; the tick 2^32 + 1000000 us after the update (71.6 minutes and one second
  without telemetry) computes \<open>dt\<close> from the counter difference 1000000, finds \<open>dt < 5.0\<close>, and sets
  \<open>location_valid\<close> to true.
\<close>

theorem vehicle_valid_after_counter_wrap:
  "location_valid (vehicle (update_vehicle_pos_estimate helpers0
      (inputs0\<lparr>micros := micros_at (3000000 + 6000000)\<rparr>)
      (tracker_auto\<lparr>vehicle := (vehicle tracker_auto)\<lparr>last_update_us := micros_at 3000000\<rparr>\<rparr>))) = False \<and>
   elapsed_dt (inputs0\<lparr>micros := micros_at (3000000 + 4295967296)\<rparr>)
      (update_vehicle_pos_estimate helpers0
        (inputs0\<lparr>micros := micros_at (3000000 + 6000000)\<rparr>)
        (tracker_auto\<lparr>vehicle := (vehicle tracker_auto)\<lparr>last_update_us := micros_at 3000000\<rparr>\<rparr>)) =
     f32_mul (f32_of_int 1000000) c_1e_6f \<and>
   f32_lt (f32_mul (f32_of_int 1000000) c_1e_6f) TRACKING_TIMEOUT_SEC \<and>
   location_valid (vehicle (update_vehicle_pos_estimate helpers0
      (inputs0\<lparr>micros := micros_at (3000000 + 4295967296)\<rparr>)
      (update_vehicle_pos_estimate helpers0
        (inputs0\<lparr>micros := micros_at (3000000 + 6000000)\<rparr>)
        (tracker_auto\<lparr>vehicle := (vehicle tracker_auto)\<lparr>last_update_us := micros_at 3000000\<rparr>\<rparr>)))) = True"
proof -
  have d1: "uint (micros_at 9000000 - micros_at 3000000) = 6000000"
    by (simp add: micros_at_def)
  have d2: "uint (micros_at 4298967296 - micros_at 3000000) = 1000000"
    by (simp add: micros_at_def)
  have lt: "f32_lt (f32_mul (f32_of_int 1000000) c_1e_6f) TRACKING_TIMEOUT_SEC"
    by (simp add: timeout_value c_1e_6f_def f32_eval)
  show ?thesis
    using lt by (simp add: location_valid_iff last_update_us_tick elapsed_dt_def d1 d2)
qed

subsection \<open>Bearing, distance and pitch calculator\<close>

text \<open>
  C5: when the vehicle's position is not valid, or the control mode is SERVO_TEST,
  \<open>update_bearing_and_distance\<close> changes nothing: the state, and with it every field
  of \<open>nav_status\<close>, is what it was.
\<close>

theorem calculator_gate_noop:
  "\<not> location_valid (vehicle s) \<or> control_mode s = SERVO_TEST \<Longrightarrow>
   update_bearing_and_distance h s = s \<and>
   nav_status (update_bearing_and_distance h s) = nav_status s"
  by (auto simp add: update_bearing_and_distance_def)

theorem calculator_gate_noop_witness:
  "location_valid (vehicle tracker0) = False \<and>
   update_bearing_and_distance helpers0 tracker0 = tracker0 \<and>
   control_mode (tracker_auto\<lparr>control_mode := SERVO_TEST\<rparr>) = SERVO_TEST \<and>
   nav_status (update_bearing_and_distance helpers0 (tracker_auto\<lparr>control_mode := SERVO_TEST\<rparr>)) =
     nav_status tracker_auto"
  using calculator_gate_noop [of tracker0 helpers0]
    calculator_gate_noop [of "tracker_auto\<lparr>control_mode := SERVO_TEST\<rparr>" helpers0]
  by (simp add: inst)

text \<open>
  C6: with a valid vehicle position and a mode other than SERVO_TEST, a calculator tick
  sets \<open>distance\<close> to the distance from the tracker's current position to the vehicle's
  location estimate in every case; it sets \<open>bearing\<close> to the bearing (centidegrees times
  0.01f) unless the mode is SCAN or the manual yaw override is on, and \<open>pitch\<close> to
  \<open>degrees(atan2f(altitude_difference, distance))\<close>, with the distance just computed,
  unless the mode is SCAN or the manual pitch override is on; a field it does not set
  keeps its value, as do all other fields of \<open>nav_status\<close>.
\<close>

theorem calculator_outputs:
  assumes "location_valid (vehicle s)" and "control_mode s \<noteq> SERVO_TEST"
  shows "nav_status (update_bearing_and_distance h s) =
     (nav_status s)
       \<lparr>bearing :=
          (if control_mode s \<noteq> SCAN \<and> \<not> manual_control_yaw (nav_status s)
           then f32_mul (f32_of_int (get_bearing_cd h (current_loc s)
                  (location_estimate (vehicle s)))) c_0_01f
           else bearing (nav_status s)),
        distance := get_distance h (current_loc s) (location_estimate (vehicle s)),
        pitch :=
          (if control_mode s \<noteq> SCAN \<and> \<not> manual_control_pitch (nav_status s)
           then degrees h (atan2f h (altitude_difference (nav_status s))
                  (get_distance h (current_loc s) (location_estimate (vehicle s))))
           else pitch (nav_status s))\<rparr>"
  using assms by (simp add: update_bearing_and_distance_def Let_def)

theorem calculator_outputs_witness:
  "bearing (nav_status (update_bearing_and_distance helpers0 tracker_auto)) =
     Finite False 11796480 (- 17) \<and>
   distance (nav_status (update_bearing_and_distance helpers0 tracker_auto)) = f32_of_int 1000 \<and>
   pitch (nav_status (update_bearing_and_distance helpers0 tracker_auto)) = f32_zero \<and>
   bearing (nav_status (update_bearing_and_distance helpers0 (tracker_auto\<lparr>control_mode := SCAN\<rparr>))) =
     f32_zero \<and>
   distance (nav_status (update_bearing_and_distance helpers0 (tracker_auto\<lparr>control_mode := SCAN\<rparr>))) =
     f32_of_int 1000"
  using calculator_outputs [of tracker_auto helpers0]
    calculator_outputs [of "tracker_auto\<lparr>control_mode := SCAN\<rparr>" helpers0]
  by (simp add: inst c_0_01f_def f32_zero_def rad_to_deg_def f32_eval)

subsection \<open>Altitude fusion, barometric mode\<close>

text \<open>
  C7: in barometric mode (\<open>alt_source = 0\<close>) a pressure sample whose differential
  altitude is NaN is discarded, the altitude difference keeping its value; otherwise the
  altitude difference becomes the differential altitude plus the offset. When a
  calibration is pending, the offset then becomes the negation of that altitude
  difference, the altitude difference becomes 0 and the flag is cleared: with the
  altitude difference at 12.0 the offset becomes -12.0.
\<close>

theorem pressure_fusion:
  assumes "alt_source (g s) = 0"
  shows "(let n = nav_status s;
              d = get_altitude_difference h (barometer_pressure i)
                    (f32_mul (msg_press_abs msg) (f32_of_int 100));
              fused = (if isnan d then altitude_difference n
                       else f32_add d (altitude_offset n));
              n' = nav_status (tracking_update_pressure h i msg s)
          in n' = (if need_altitude_calibration n
                   then n\<lparr>altitude_difference := f32_zero,
                          altitude_offset := f32_neg fused,
                          need_altitude_calibration := False\<rparr>
                   else n\<lparr>altitude_difference := fused\<rparr>) \<and>
             (need_altitude_calibration n \<and> fused = f32_of_int 12 \<longrightarrow>
                altitude_offset n' = f32_of_int (- 12) \<and>
                altitude_difference n' = f32_zero \<and>
                \<not> need_altitude_calibration n'))"
  using assms
  by (simp add: tracking_update_pressure_def Let_def f32_eval f32_zero_def)

theorem pressure_fusion_witness:
  "altitude_offset (nav_status (tracking_update_pressure
      (helpers0\<lparr>get_altitude_difference := (\<lambda>p q. NaN)\<rparr>) inputs0 \<lparr>msg_press_abs = f32_of_int 1000\<rparr>
      (tracker0\<lparr>nav_status := (nav_status tracker0)\<lparr>altitude_difference := f32_of_int 12,
                                                     need_altitude_calibration := True\<rparr>\<rparr>))) =
     f32_of_int (- 12) \<and>
   altitude_difference (nav_status (tracking_update_pressure
      (helpers0\<lparr>get_altitude_difference := (\<lambda>p q. NaN)\<rparr>) inputs0 \<lparr>msg_press_abs = f32_of_int 1000\<rparr>
      (tracker0\<lparr>nav_status := (nav_status tracker0)\<lparr>altitude_difference := f32_of_int 12\<rparr>\<rparr>))) =
     f32_of_int 12 \<and>
   altitude_difference (nav_status (tracking_update_pressure helpers0 inputs0
      \<lparr>msg_press_abs = f32_of_int 1000\<rparr>
      (tracker0\<lparr>nav_status := (nav_status tracker0)\<lparr>altitude_offset := f32_of_int 3\<rparr>\<rparr>))) =
     f32_of_int 23"
  using pressure_fusion [of
      "tracker0\<lparr>nav_status := (nav_status tracker0)\<lparr>altitude_difference := f32_of_int 12,
                                                   need_altitude_calibration := True\<rparr>\<rparr>"
      "helpers0\<lparr>get_altitude_difference := (\<lambda>p q. NaN)\<rparr>" inputs0
      "\<lparr>msg_press_abs = f32_of_int 1000\<rparr>"]
    pressure_fusion [of
      "tracker0\<lparr>nav_status := (nav_status tracker0)\<lparr>altitude_difference := f32_of_int 12\<rparr>\<rparr>"
      "helpers0\<lparr>get_altitude_difference := (\<lambda>p q. NaN)\<rparr>" inputs0
      "\<lparr>msg_press_abs = f32_of_int 1000\<rparr>"]
    pressure_fusion [of
      "tracker0\<lparr>nav_status := (nav_status tracker0)\<lparr>altitude_offset := f32_of_int 3\<rparr>\<rparr>"
      helpers0 inputs0 "\<lparr>msg_press_abs = f32_of_int 1000\<rparr>"]
  by (simp add: inst isnan_def f32_zero_def f32_eval)

subsection \<open>Manual control\<close>

lemma sint_sentinel: "(sint (w :: 16 word) = 0x7FFF) = (w = 0x7FFF)"
proof -
  have "sint (0x7FFF :: 16 word) = 0x7FFF" by simp
  then show ?thesis using signed_word_eqI [of w "0x7FFF"] by auto
qed

text \<open>
  C8: a manual-control sample \<open>(x, y)\<close> sets \<open>distance\<close> to 0,
  \<open>manual_control_yaw\<close> to whether \<open>x\<close> is not 0x7FFF and \<open>manual_control_pitch\<close> to
  whether \<open>y\<close> is not 0x7FFF.
\<close>

theorem manual_control_flags:
  "distance (nav_status (tracking_manual_control msg s)) = f32_zero \<and>
   manual_control_yaw (nav_status (tracking_manual_control msg s)) = (msg_x msg \<noteq> 0x7FFF) \<and>
   manual_control_pitch (nav_status (tracking_manual_control msg s)) = (msg_y msg \<noteq> 0x7FFF)"
  by (simp add: tracking_manual_control_def sint_sentinel)

theorem manual_control_flags_witness:
  "distance (nav_status (tracking_manual_control \<lparr>msg_x = 0x7FFF, msg_y = 100\<rparr> tracker0)) = f32_zero \<and>
   manual_control_yaw (nav_status (tracking_manual_control \<lparr>msg_x = 0x7FFF, msg_y = 100\<rparr> tracker0)) = False \<and>
   manual_control_pitch (nav_status (tracking_manual_control \<lparr>msg_x = 0x7FFF, msg_y = 100\<rparr> tracker0)) = True"
  using manual_control_flags [of "\<lparr>msg_x = 0x7FFF, msg_y = 100\<rparr>" tracker0] by simp

text \<open>
  C9: the handler stores \<open>x\<close> in \<open>bearing\<close> and \<open>y\<close> in \<open>pitch\<close> whatever they are. An
  axis that carries 0x7FFF leaves 32767.0 in its command field, with its override flag
  false, and the next calculator tick that runs (valid vehicle position, mode neither
  SERVO_TEST nor SCAN) overwrites the bearing.
\<close>

theorem manual_control_overwrites_commands:
  "bearing (nav_status (tracking_manual_control msg s)) = f32_of_int (sint (msg_x msg)) \<and>
   pitch (nav_status (tracking_manual_control msg s)) = f32_of_int (sint (msg_y msg)) \<and>
   (msg_x msg = 0x7FFF \<longrightarrow>
      bearing (nav_status (tracking_manual_control msg s)) = Finite False 16776704 (- 9) \<and>
      valof (bearing (nav_status (tracking_manual_control msg s))) = 32767 \<and>
      \<not> manual_control_yaw (nav_status (tracking_manual_control msg s))) \<and>
   (msg_y msg = 0x7FFF \<longrightarrow>
      pitch (nav_status (tracking_manual_control msg s)) = Finite False 16776704 (- 9) \<and>
      valof (pitch (nav_status (tracking_manual_control msg s))) = 32767 \<and>
      \<not> manual_control_pitch (nav_status (tracking_manual_control msg s))) \<and>
   (msg_x msg = 0x7FFF \<and> location_valid (vehicle s) \<and>
    control_mode s \<noteq> SERVO_TEST \<and> control_mode s \<noteq> SCAN \<longrightarrow>
      bearing (nav_status (update_bearing_and_distance h (tracking_manual_control msg s))) =
        f32_mul (f32_of_int (get_bearing_cd h (current_loc s) (location_estimate (vehicle s))))
          c_0_01f)"
  by (simp add: tracking_manual_control_def update_bearing_and_distance_def Let_def
      f32_of_int_sentinel signed_value_def)

theorem manual_control_overwrites_commands_witness:
  "bearing (nav_status (tracking_manual_control \<lparr>msg_x = 0x7FFF, msg_y = 100\<rparr> tracker_auto)) =
     Finite False 16776704 (- 9) \<and>
   pitch (nav_status (tracking_manual_control \<lparr>msg_x = 0x7FFF, msg_y = 100\<rparr> tracker_auto)) =
     f32_of_int 100 \<and>
   manual_control_yaw (nav_status (tracking_manual_control \<lparr>msg_x = 0x7FFF, msg_y = 100\<rparr>
     tracker_auto)) = False \<and>
   bearing (nav_status (update_bearing_and_distance helpers0
     (tracking_manual_control \<lparr>msg_x = 0x7FFF, msg_y = 100\<rparr> tracker_auto))) =
     Finite False 11796480 (- 17) \<and>
   pitch (nav_status (update_bearing_and_distance helpers0
     (tracking_manual_control \<lparr>msg_x = 0x7FFF, msg_y = 100\<rparr> tracker_auto))) = f32_of_int 100"
  using manual_control_overwrites_commands [of "\<lparr>msg_x = 0x7FFF, msg_y = 100\<rparr>" tracker_auto helpers0]
  by (simp add: inst tracking_manual_control_def update_bearing_and_distance_def
      c_0_01f_def f32_eval)

subsection \<open>Frame of the estimation calls\<close>

lemma update_tracker_position_frame:
  "update_tracker_position i s = Some s2 \<Longrightarrow>
   s2 = s\<lparr>current_loc := current_loc s2, old_loc := old_loc s2\<rparr>"
  by (auto simp add: update_tracker_position_def Let_def split: if_splits option.splits)

lemma estimation_stage_frame:
  assumes "estimation_stage h i s = Some s3"
  shows "g s3 = g s \<and> control_mode s3 = control_mode s \<and>
         start_time_ms s3 = start_time_ms s \<and> delay_timer s3 = delay_timer s \<and>
         servo_cmds s3 = servo_cmds s \<and>
         altitude_difference (nav_status s3) = altitude_difference (nav_status s) \<and>
         altitude_offset (nav_status s3) = altitude_offset (nav_status s)"
proof -
  obtain s2 where s2: "update_tracker_position i (update_vehicle_pos_estimate h i s) = Some s2"
    and s3: "s3 = update_bearing_and_distance h s2"
    using assms by (auto simp add: estimation_stage_def split: option.splits)
  have f1: "s2 = (update_vehicle_pos_estimate h i s)\<lparr>current_loc := current_loc s2, old_loc := old_loc s2\<rparr>"
    using s2 by (rule update_tracker_position_frame)
  have f2: "g s2 = g s \<and> control_mode s2 = control_mode s \<and>
         start_time_ms s2 = start_time_ms s \<and> delay_timer s2 = delay_timer s \<and>
         servo_cmds s2 = servo_cmds s \<and> nav_status s2 = nav_status s"
    by (subst f1, simp add: update_vehicle_pos_estimate_def Let_def)+
  show ?thesis
    using f2 by (simp add: s3 update_bearing_and_distance_def Let_def)
qed

subsection \<open>Startup delay and the INITIALISING state\<close>

lemma f32_of_int_5: "f32_of_int 5 = Finite False 10485760 (- 21)"
  by (simp add: f32_eval)

lemma f32_of_int_0_value: "f32_of_int 0 = Finite False 0 (- 149)"
  by (simp add: f32_eval)

lemma f32_of_int_1000: "f32_of_int 1000 = Finite False 16384000 (- 14)"
  by (simp add: f32_eval)

lemma f32_mul_5_1000: "f32_mul (Finite False 10485760 (- 21)) (Finite False 16384000 (- 14)) = Finite False 10240000 (- 11)"
  by (simp add: f32_eval)

lemma zero_delay_not_running:
  "startup_delay p = Finite sg 0 (- 149) \<Longrightarrow> \<not> startup_delay_running p now t0"
  by (simp add: startup_delay_running_def f32_gt_def f32_of_int_def round_f32_def
      bit_length.simps signed_value_def Let_def)

lemma update_initialising_timer:
  "delay_timer (update_initialising h i s) =
     (if pitch_in_band h i then (if delay_timer s = 0 then millis i else delay_timer s)
      else delay_timer s)"
  by (simp add: update_initialising_def Let_def set_mode_def)

lemma update_initialising_mode:
  "control_mode (update_initialising h i s) =
     (if pitch_in_band h i \<and>
         \<not> startup_delay_running (g s) (millis i)
             (if delay_timer s = 0 then millis i else delay_timer s)
      then AUTO else control_mode s)"
  by (simp add: update_initialising_def Let_def set_mode_def)

lemma update_initialising_g: "g (update_initialising h i s) = g s"
  by (simp add: update_initialising_def Let_def set_mode_def)

lemma in_band_45: "pitch_in_band helpers0 (inputs0\<lparr>millis := t, ahrs_pitch := pitch_45\<rparr>)"
  by (simp add: pitch_in_band_def inst pitch_45_def rad_to_deg_def f32_gt_def f32_eval)

lemma out_of_band_0: "\<not> pitch_in_band helpers0 (inputs0\<lparr>millis := t\<rparr>)"
  by (simp add: pitch_in_band_def inst f32_zero_def rad_to_deg_def f32_gt_def f32_eval)

lemma delay_running_at_0: "startup_delay_running (g tracker0) 1000 1000"
  apply (simp add: startup_delay_running_def tracker0_def f32_of_int_5 f32_of_int_0_value f32_of_int_1000 f32_mul_5_1000 f32_gt_def)
  apply (simp add: f32_eval)
  done

lemma delay_elapsed_at_5000: "\<not> startup_delay_running (g tracker0) 6000 1000"
  apply (simp add: startup_delay_running_def tracker0_def f32_of_int_5 f32_of_int_0_value f32_of_int_1000 f32_mul_5_1000 f32_gt_def)
  apply (simp add: f32_eval)
  done

lemma tracker0_timer: "delay_timer tracker0 = 0"
  by (simp add: tracker0_def)

lemma tracker0_mode: "control_mode tracker0 = INITIALISING"
  by (simp add: tracker0_def)

text \<open>
  C2, as the claim states it, fails: the code never resets \<open>delay_timer\<close>. With a
  startup delay of 5 s, a tick at 1000 ms with the pitch at 45 degrees starts the timer;
  a tick at 3000 ms with the pitch at 0 degrees, outside the band, leaves the timer at
  1000, not at 0; and the tick at 6000 ms, the first one back inside the band, switches
  to AUTO at once, although the pitch has been inside the band for no time at all.
\<close>

theorem settle_timer_not_reset_counterexample:
  "pitch_in_band helpers0 (inputs0\<lparr>millis := 1000, ahrs_pitch := pitch_45\<rparr>) \<and>
   \<not> pitch_in_band helpers0 (inputs0\<lparr>millis := 3000\<rparr>) \<and>
   pitch_in_band helpers0 (inputs0\<lparr>millis := 6000, ahrs_pitch := pitch_45\<rparr>) \<and>
   control_mode (update_initialising helpers0 (inputs0\<lparr>millis := 1000, ahrs_pitch := pitch_45\<rparr>)
     tracker0) = INITIALISING \<and>
   delay_timer (update_initialising helpers0 (inputs0\<lparr>millis := 3000\<rparr>)
     (update_initialising helpers0 (inputs0\<lparr>millis := 1000, ahrs_pitch := pitch_45\<rparr>)
       tracker0)) = 1000 \<and>
   control_mode (update_initialising helpers0 (inputs0\<lparr>millis := 3000\<rparr>)
     (update_initialising helpers0 (inputs0\<lparr>millis := 1000, ahrs_pitch := pitch_45\<rparr>)
       tracker0)) = INITIALISING \<and>
   control_mode (update_initialising helpers0 (inputs0\<lparr>millis := 6000, ahrs_pitch := pitch_45\<rparr>)
     (update_initialising helpers0 (inputs0\<lparr>millis := 3000\<rparr>)
       (update_initialising helpers0 (inputs0\<lparr>millis := 1000, ahrs_pitch := pitch_45\<rparr>)
         tracker0))) = AUTO"
proof -
  have t0: "delay_timer tracker0 = 0" and m0: "control_mode tracker0 = INITIALISING"
    by (simp_all add: tracker0_def)
  show ?thesis
    using in_band_45 [of 1000] out_of_band_0 [of 3000] in_band_45 [of 6000] delay_running_at_0 delay_elapsed_at_5000 t0 m0
    by (simp add: update_initialising_timer update_initialising_mode update_initialising_g)
qed

text \<open>
  C2, amended: a tick of \<open>update_initialising\<close> in mode INITIALISING switches to AUTO if
  and only if the attitude pitch is inside the band (40, 50) degrees on that tick and
  the startup delay is not running any more, measured from \<open>delay_timer\<close>: the time of
  the first tick ever inside the band (of this tick when \<open>delay_timer\<close> is still 0).
  Otherwise the mode stays INITIALISING. A tick outside the band leaves \<open>delay_timer\<close>
  as it is.
\<close>

theorem initialising_transition:
  assumes "control_mode s = INITIALISING"
  shows "(let t = (if delay_timer s = 0 then millis i else delay_timer s);
              s' = update_initialising h i s
          in (control_mode s' = AUTO) =
               (pitch_in_band h i \<and> \<not> startup_delay_running (g s) (millis i) t) \<and>
             control_mode s' =
               (if pitch_in_band h i \<and> \<not> startup_delay_running (g s) (millis i) t
                then AUTO else INITIALISING) \<and>
             delay_timer s' = (if pitch_in_band h i then t else delay_timer s))"
  using assms by (simp add: update_initialising_def Let_def set_mode_def)

theorem initialising_transition_witness:
  "control_mode (update_initialising helpers0 (inputs0\<lparr>millis := 1000, ahrs_pitch := pitch_45\<rparr>)
     tracker0) = INITIALISING \<and>
   delay_timer (update_initialising helpers0 (inputs0\<lparr>millis := 1000, ahrs_pitch := pitch_45\<rparr>)
     tracker0) = 1000 \<and>
   control_mode (update_initialising helpers0 (inputs0\<lparr>millis := 6000, ahrs_pitch := pitch_45\<rparr>)
     (tracker0\<lparr>delay_timer := 1000\<rparr>)) = AUTO \<and>
   delay_timer (update_initialising helpers0 (inputs0\<lparr>millis := 3000\<rparr>)
     (tracker0\<lparr>delay_timer := 1000\<rparr>)) = 1000"
  using initialising_transition [of tracker0 "inputs0\<lparr>millis := 1000, ahrs_pitch := pitch_45\<rparr>" helpers0]
    initialising_transition [of "tracker0\<lparr>delay_timer := 1000\<rparr>"
      "inputs0\<lparr>millis := 6000, ahrs_pitch := pitch_45\<rparr>" helpers0]
    initialising_transition [of "tracker0\<lparr>delay_timer := 1000\<rparr>" "inputs0\<lparr>millis := 3000\<rparr>" helpers0]
    in_band_45 [of 1000] out_of_band_0 [of 3000] in_band_45 [of 6000] delay_running_at_0 delay_elapsed_at_5000
  by (simp add: tracker0_timer tracker0_mode Let_def)



subsection \<open>Tracker position filter\<close>

lemma blend_48800: "blend_axis 48800 48800 = Some 48800"
  by (simp add: blend_axis_def c_0_95f_def c_0_05f_def f32_eval)

lemma blend_lat: "blend_axis 473977420 473977420 = Some 473977408"
  by (simp add: blend_axis_def c_0_95f_def c_0_05f_def f32_eval)

lemma blend_lng: "blend_axis 85455940 85455940 = Some 85455936"
  by (simp add: blend_axis_def c_0_95f_def c_0_05f_def f32_eval)

lemma blend_0: "blend_axis 0 0 = Some 0"
  by (simp add: blend_axis_def c_0_95f_def c_0_05f_def f32_eval)

lemma blend_100_110: "blend_axis 100 110 = Some 100"
  by (simp add: blend_axis_def c_0_95f_def c_0_05f_def f32_eval)

text \<open>
  C3, as the claim states it, fails on both counts. The first fix is blended with
  itself in \<open>float\<close>, which has 24 significant bits: from the fix (48800, 473977420,
  85455940) the filter stores the latitude 473977408 and the longitude 85455936. On a
  later fix the sum is truncated to an integer: from the altitude 100 and the raw altitude
  110 it stores 100, and 0.95 * 100 + 0.05 * 110 is 100.5.
\<close>

theorem tracker_position_filter_counterexample:
  "update_tracker_position (inputs0\<lparr>gps_status := GPS_OK_FIX_3D, gps_location := home_fix\<rparr>) tracker0 =
     Some (tracker0\<lparr>current_loc := \<lparr>alt = 48800, lat = 473977408, lng = 85455936\<rparr>,
                    old_loc := \<lparr>alt = 48800, lat = 473977408, lng = 85455936\<rparr>\<rparr>) \<and>
   \<lparr>alt = 48800, lat = 473977408, lng = 85455936\<rparr> \<noteq> home_fix \<and>
   update_tracker_position
     (inputs0\<lparr>gps_status := GPS_OK_FIX_3D, gps_location := \<lparr>alt = 110, lat = 0, lng = 0\<rparr>\<rparr>)
     (tracker0\<lparr>current_loc := \<lparr>alt = 100, lat = 0, lng = 0\<rparr>,
               old_loc := \<lparr>alt = 100, lat = 0, lng = 0\<rparr>\<rparr>) =
     Some (tracker0\<lparr>current_loc := \<lparr>alt = 100, lat = 0, lng = 0\<rparr>,
                    old_loc := \<lparr>alt = 100, lat = 0, lng = 0\<rparr>\<rparr>) \<and>
   real_of_int 100 \<noteq> 0.95 * real_of_int 100 + 0.05 * real_of_int 110"
  by (simp add: update_tracker_position_def Let_def inst home_fix_def
      blend_48800 blend_lat blend_lng blend_0 blend_100_110)

text \<open>
  C3, amended: with a fix of quality 2D or better, the previous smoothed location is
  first replaced by the raw fix when it is the zero sentinel; then, on the first fix as
  on every later one, each axis becomes \<open>0.95f * old + 0.05f * raw\<close> computed in
  \<open>float\<close> (both integers converted, each product and the sum rounded) and truncated
  to an integer, and the result is stored as the current and as the previous location.
  The call is defined exactly when the three conversions to \<open>int32_t\<close> are.
\<close>

theorem tracker_position_filter:
  assumes "gps_status_value GPS_OK_FIX_2D \<le> gps_status_value (gps_status i)"
  shows "(let raw = gps_location i;
              first_fix = (alt (old_loc s) = 0 \<and> lat (old_loc s) = 0 \<and> lng (old_loc s) = 0);
              old = (if first_fix then raw else old_loc s)
          in (update_tracker_position i s \<noteq> None) =
               (blend_axis (alt old) (alt raw) \<noteq> None \<and>
                blend_axis (lat old) (lat raw) \<noteq> None \<and>
                blend_axis (lng old) (lng raw) \<noteq> None) \<and>
             (\<forall>s'. update_tracker_position i s = Some s' \<longrightarrow>
                Some (alt (current_loc s')) = blend_axis (alt old) (alt raw) \<and>
                Some (lat (current_loc s')) = blend_axis (lat old) (lat raw) \<and>
                Some (lng (current_loc s')) = blend_axis (lng old) (lng raw) \<and>
                old_loc s' = current_loc s' \<and>
                s' = s\<lparr>current_loc := current_loc s', old_loc := current_loc s'\<rparr>))"
  using assms
  by (auto simp add: update_tracker_position_def Let_def split: option.splits)

theorem tracker_position_filter_witness:
  "update_tracker_position
     (inputs0\<lparr>gps_status := GPS_OK_FIX_3D, gps_location := \<lparr>alt = 110, lat = 0, lng = 0\<rparr>\<rparr>)
     (tracker0\<lparr>current_loc := \<lparr>alt = 100, lat = 0, lng = 0\<rparr>,
               old_loc := \<lparr>alt = 100, lat = 0, lng = 0\<rparr>\<rparr>) \<noteq> None \<and>
   blend_axis 100 110 = Some 100 \<and>
   update_tracker_position (inputs0\<lparr>gps_status := GPS_OK_FIX_2D, gps_location := home_fix\<rparr>) tracker0
     \<noteq> None"
  using tracker_position_filter [of
      "inputs0\<lparr>gps_status := GPS_OK_FIX_3D, gps_location := \<lparr>alt = 110, lat = 0, lng = 0\<rparr>\<rparr>"
      "tracker0\<lparr>current_loc := \<lparr>alt = 100, lat = 0, lng = 0\<rparr>,
               old_loc := \<lparr>alt = 100, lat = 0, lng = 0\<rparr>\<rparr>"]
    tracker_position_filter [of
      "inputs0\<lparr>gps_status := GPS_OK_FIX_2D, gps_location := home_fix\<rparr>" tracker0]
  by (simp add: Let_def inst home_fix_def blend_48800 blend_lat blend_lng blend_0 blend_100_110)

subsection \<open>Altitude fusion, GPS-altitude mode\<close>

lemma f32_of_int_100: "f32_of_int 100 = Finite False 13107200 (- 17)"
  by (simp add: f32_eval)

lemma tick_gps_alt:
  "update_tracking helpers0 (inputs0\<lparr>safety_switch_state := SAFETY_ARMED\<rparr>) tracker_gps_alt =
     Some (tracker_gps_alt
            \<lparr>vehicle := (vehicle tracker_gps_alt)\<lparr>location_estimate := \<lparr>alt = 10000, lat = 0, lng = 0\<rparr>\<rparr>,
             nav_status := (nav_status tracker_gps_alt)
                \<lparr>bearing := Finite False 11796480 (- 17), distance := f32_of_int 1000\<rparr>,
             servo_cmds := [Disarm_servos]\<rparr>)"
proof -
  have e: "elapsed_dt (inputs0\<lparr>safety_switch_state := SAFETY_ARMED\<rparr>) tracker_gps_alt = f32_zero"
    by (simp add: elapsed_dt_def inst tracker_gps_alt_def f32_of_int_0_value c_1e_6f_def f32_zero_def)
       (simp add: f32_eval)
  have lt: "f32_lt f32_zero TRACKING_TIMEOUT_SEC"
    by (simp add: TRACKING_TIMEOUT_SEC_def f32_of_int_5 f32_zero_def signed_value_def)
  have b: "f32_mul (f32_of_int 9000) c_0_01f = Finite False 11796480 (- 17)"
    by (simp add: c_0_01f_def f32_eval)
  have z: "f32_mul f32_zero rad_to_deg = f32_zero"
    by (simp add: f32_zero_def rad_to_deg_def f32_eval)
  have nr: "\<And>now t0. \<not> startup_delay_running
      \<lparr>startup_delay = f32_zero, alt_source = 1, pitch_trim = f32_zero\<rparr> now t0"
    by (rule zero_delay_not_running [where sg = False]) (simp add: f32_zero_def)
  show ?thesis
    apply (simp add: update_tracking_def estimation_stage_def update_vehicle_pos_estimate_def e lt
        Let_def)
    apply (simp add: update_tracker_position_def update_bearing_and_distance_def Let_def
        tracker_gps_alt_def tracker0_def inputs0_def helpers0_def loc_zero_def b z nr
        mode_dispatch_def disarm_servos_def)
    done
qed

text \<open>
  C4, as the claim states it, fails: the tick does not touch the altitude difference.
  In GPS-altitude mode, with the vehicle's position valid before and after the tick and
  the vehicle 100 m above the tracker, a tick of \<open>update_tracking\<close> that runs to the end
  leaves the altitude difference at 0.
\<close>

theorem gps_alt_every_tick_counterexample:
  "alt_source (g tracker_gps_alt) = 1 \<and>
   location_valid (vehicle tracker_gps_alt) \<and>
   map_option (\<lambda>s'. location_valid (vehicle s'))
     (update_tracking helpers0 (inputs0\<lparr>safety_switch_state := SAFETY_ARMED\<rparr>) tracker_gps_alt) =
     Some True \<and>
   map_option (\<lambda>s'. altitude_difference (nav_status s'))
     (update_tracking helpers0 (inputs0\<lparr>safety_switch_state := SAFETY_ARMED\<rparr>) tracker_gps_alt) =
     Some f32_zero \<and>
   f32_of_int (cdiv (alt (location (vehicle tracker_gps_alt)) - alt (current_loc tracker_gps_alt)) 100)
     = f32_of_int 100 \<and>
   f32_of_int 100 \<noteq> f32_zero"
  by (simp add: tick_gps_alt)
     (simp add: tracker_gps_alt_def tracker0_def loc_zero_def cdiv_def f32_of_int_100 f32_zero_def)

lemma tracking_update_position_nav:
  "nav_status (tracking_update_position h i msg s) =
     (if alt_source (g s) = 1 \<and> location_valid (vehicle s)
      then (nav_status s)\<lparr>altitude_difference :=
             f32_of_int (cdiv (cdiv (sint (msg_alt msg)) 10 - alt (current_loc s)) 100)\<rparr>
      else nav_status s)"
  by (simp add: tracking_update_position_def tracking_update_gps_alt_def Let_def)

text \<open>
  C4, amended: in GPS-altitude mode the altitude difference is set when a position
  message of the vehicle is handled, not on the tick: if the vehicle's position is valid
  at that moment, the altitude difference becomes the vehicle's altitude (the message's
  millimetres divided by 10) minus the tracker's current altitude, divided by 100 as
  integers, so a whole number of metres truncated towards zero; otherwise it keeps its
  value. No offset is applied. The estimation calls of a tick leave the altitude
  difference and the offset as they are.
\<close>

theorem gps_alt_on_position_message:
  assumes "alt_source (g s) = 1"
  shows "nav_status (tracking_update_position h i msg s) =
           (if location_valid (vehicle s)
            then (nav_status s)\<lparr>altitude_difference :=
                   f32_of_int (cdiv (cdiv (sint (msg_alt msg)) 10 - alt (current_loc s)) 100)\<rparr>
            else nav_status s) \<and>
         (\<forall>s3. estimation_stage h i s = Some s3 \<longrightarrow>
            altitude_difference (nav_status s3) = altitude_difference (nav_status s) \<and>
            altitude_offset (nav_status s3) = altitude_offset (nav_status s))"
  using assms estimation_stage_frame [of h i s]
  by (simp add: tracking_update_position_nav)

theorem gps_alt_on_position_message_witness:
  "altitude_difference (nav_status (tracking_update_position helpers0 inputs0
      \<lparr>msg_lat = 0, msg_lon = 0, msg_alt = 151500, msg_vx = 0, msg_vy = 0, msg_hdg = 0\<rparr>
      tracker_gps_alt)) = f32_of_int 151 \<and>
   altitude_offset (nav_status (tracking_update_position helpers0 inputs0
      \<lparr>msg_lat = 0, msg_lon = 0, msg_alt = 151500, msg_vx = 0, msg_vy = 0, msg_hdg = 0\<rparr>
      tracker_gps_alt)) = f32_zero"
  using gps_alt_on_position_message [of tracker_gps_alt helpers0 inputs0
      "\<lparr>msg_lat = 0, msg_lon = 0, msg_alt = 151500, msg_vx = 0, msg_vy = 0, msg_hdg = 0\<rparr>"]
  by (simp add: tracker_gps_alt_def tracker0_def loc_zero_def cdiv_def)

end
